theory Spec2Isabelle
  imports Main "HOL-Library.Word"
begin

section \<open>Python values, exceptions and strings\<close>

text \<open>
  The program under study is \<^verbatim>\<open>snowflake-to-googlesheet/main.py\<close>: it loads a
  configuration, a query and a private key, reads a table from a warehouse, stamps it
  with the run date and overwrites one worksheet with it. Cell values are Python
  objects; the ones that matter here are strings, integers, booleans and \<^verbatim>\<open>None\<close>.
\<close>

datatype pyval = PNone | PBool bool | PInt int | PStr string

text \<open>
  The members of Python's class \<^verbatim>\<open>Exception\<close> that the calls of the program raise.
  \<^verbatim>\<open>WorksheetNotFound\<close> and \<^verbatim>\<open>APIError\<close> are the two exceptions of gspread.
\<close>

datatype exn =
    OSError string
  | JSONDecodeError string
  | KeyError string
  | ValueError string
  | DatabaseError string
  | WorksheetNotFound string
  | APIError string

text \<open>\<^verbatim>\<open>str(e)\<close>, as the f-strings of the log messages render an exception.\<close>

fun str_exn :: "exn \<Rightarrow> string" where
  "str_exn (OSError m) = m"
| "str_exn (JSONDecodeError m) = m"
| "str_exn (KeyError k) = [CHR 0x27] @ k @ [CHR 0x27]"
| "str_exn (ValueError m) = m"
| "str_exn (DatabaseError m) = m"
| "str_exn (WorksheetNotFound t) = t"
| "str_exn (APIError m) = m"

subsection \<open>Decimal rendering: \<^verbatim>\<open>str(n)\<close> and zero padding\<close>

definition digit_char :: "nat \<Rightarrow> char" where
  "digit_char d = char_of (48 + d)"

definition digit_val :: "char \<Rightarrow> nat" where
  "digit_val c = of_char c - 48"

definition is_digit :: "char \<Rightarrow> bool" where
  "is_digit c = (48 \<le> (of_char c :: nat) \<and> (of_char c :: nat) \<le> 57)"

function str_nat :: "nat \<Rightarrow> string" where
  "str_nat n = (if n < 10 then [digit_char n] else str_nat (n div 10) @ [digit_char (n mod 10)])"
  by pat_completeness auto
termination
  by (relation "measure id") auto

declare str_nat.simps [simp del]

text \<open>What the spreadsheet service reads back from a decimal string.\<close>

definition nat_of_str :: "string \<Rightarrow> nat" where
  "nat_of_str s = foldl (\<lambda>a c. 10 * a + digit_val c) 0 s"

text \<open>\<^verbatim>\<open>'%04d' % n\<close> and \<^verbatim>\<open>'%02d' % n\<close>: pad on the left with zeros up to the width.\<close>

definition zfill :: "nat \<Rightarrow> string \<Rightarrow> string" where
  "zfill w s = replicate (w - length s) (CHR ''0'') @ s"

subsection \<open>Dates: \<^verbatim>\<open>date.today().isoformat()\<close>\<close>

record date =
  year :: nat
  month :: nat
  day :: nat

definition is_leap :: "nat \<Rightarrow> bool" where
  "is_leap y = (y mod 4 = 0 \<and> (y mod 100 \<noteq> 0 \<or> y mod 400 = 0))"

definition days_in_month :: "nat \<Rightarrow> nat \<Rightarrow> nat" where
  "days_in_month y m =
     (if m = 2 then (if is_leap y then 29 else 28)
      else if m \<in> {4, 6, 9, 11} then 30 else 31)"

text \<open>The dates Python's \<^verbatim>\<open>datetime.date\<close> can hold (years 1 to 9999).\<close>

definition valid_date :: "date \<Rightarrow> bool" where
  "valid_date d =
     (1 \<le> year d \<and> year d \<le> 9999 \<and> 1 \<le> month d \<and> month d \<le> 12 \<and>
      1 \<le> day d \<and> day d \<le> days_in_month (year d) (month d))"

definition isoformat :: "date \<Rightarrow> string" where
  "isoformat d =
     zfill 4 (str_nat (year d)) @ ''-'' @ zfill 2 (str_nat (month d)) @ ''-'' @
     zfill 2 (str_nat (day d))"

text \<open>The calendar-date form of ISO 8601: \<^verbatim>\<open>YYYY-MM-DD\<close>.\<close>

definition iso8601_date :: "string \<Rightarrow> bool" where
  "iso8601_date s =
     (length s = 10 \<and> s ! 4 = CHR ''-'' \<and> s ! 7 = CHR ''-'' \<and>
      list_all is_digit (take 4 s) \<and> list_all is_digit (take 2 (drop 5 s)) \<and>
      list_all is_digit (drop 8 s) \<and>
      1 \<le> nat_of_str (take 2 (drop 5 s)) \<and> nat_of_str (take 2 (drop 5 s)) \<le> 12 \<and>
      1 \<le> nat_of_str (drop 8 s) \<and> nat_of_str (drop 8 s) \<le> 31)"

section \<open>The result table\<close>

text \<open>
  A pandas \<^verbatim>\<open>DataFrame\<close>: the column labels in order and the rows in order
  (\<^verbatim>\<open>df.columns\<close>, \<^verbatim>\<open>df.values.tolist()\<close>). A frame is rectangular; labels may repeat
  (\<^verbatim>\<open>select 1 as a, 2 as a\<close>).
\<close>

record dataframe =
  columns :: "string list"
  rows :: "pyval list list"

definition wf_dataframe :: "dataframe \<Rightarrow> bool" where
  "wf_dataframe df = list_all (\<lambda>r. length r = length (columns df)) (rows df)"

text \<open>
  \<^verbatim>\<open>df[key] = v\<close> with a scalar \<^verbatim>\<open>v\<close>: pandas looks the label up; when it is
  present every column carrying it is overwritten in place, otherwise a new column
  is inserted at the end.
\<close>

definition setitem :: "dataframe \<Rightarrow> string \<Rightarrow> pyval \<Rightarrow> dataframe" where
  "setitem df key v =
     (if key \<in> set (columns df)
      then df\<lparr>rows := map (\<lambda>r. map (\<lambda>(c, x). if c = key then v else x) (zip (columns df) r)) (rows df)\<rparr>
      else df\<lparr>columns := columns df @ [key], rows := map (\<lambda>r. r @ [v]) (rows df)\<rparr>)"

section \<open>The process and the world outside it\<close>

type_synonym byte = "8 word"

type_synonym config = "string \<rightharpoonup> string"

datatype level = INFO | WARNING | ERROR

text \<open>
  The requests the process sends to the warehouse and to the spreadsheet service, in
  the order it sends them. \<^verbatim>\<open>create_engine\<close> and \<^verbatim>\<open>URL\<close> only build objects; the
  first request to the warehouse is \<^verbatim>\<open>engine.connect()\<close>. Reading a local file is
  not a request.
\<close>

datatype event =
    EngineConnect
  | Execute string
  | ReadSql string
  | ConnectionClose
  | Authorize
  | OpenByUrl string
  | GetWorksheet string
  | Clear nat
  | AddWorksheet string string string
  | Update nat string "pyval list list"

text \<open>A worksheet of the target spreadsheet: its title, its grid size and its occupied cells.\<close>

record worksheet =
  title :: string
  row_count :: nat
  col_count :: nat
  cells :: "nat \<times> nat \<rightharpoonup> pyval"

text \<open>
  What a run changes: the lines the logger has printed, the requests sent so far and
  the worksheets of the spreadsheet.
\<close>

record st =
  log :: "(level \<times> string) list"
  calls :: "event list"
  sheets :: "worksheet list"

definition init :: "worksheet list \<Rightarrow> st" where
  "init shs = \<lparr>log = [], calls = [], sheets = shs\<rparr>"

text \<open>
  What a run reads from outside: the files, the clock, the key library
  (\<^verbatim>\<open>cryptography\<close>, for keys of type \<open>'k\<close>) and the outcome of each request. Every
  request is sent at most once in a run, so one outcome for each is enough. The
  requests of gspread on a worksheet fail with \<^verbatim>\<open>APIError\<close>; only the lookup
  \<^verbatim>\<open>Spreadsheet.worksheet\<close> raises \<^verbatim>\<open>WorksheetNotFound\<close>, when no worksheet has the title.
\<close>

record 'k world =
  json_file :: "string \<Rightarrow> exn + config"
  text_file :: "string \<Rightarrow> exn + string"
  binary_file :: "string \<Rightarrow> exn + byte list"
  load_pem_private_key :: "byte list \<Rightarrow> exn + 'k"
  private_bytes :: "'k \<Rightarrow> byte list"
  today :: date
  connect_result :: "exn option"
  execute_result :: "exn option"
  read_sql_result :: "exn + dataframe"
  close_result :: "exn option"
  keyfile_result :: "string \<Rightarrow> exn option"
  authorize_result :: "exn option"
  open_by_url_result :: "exn option"
  worksheet_fault :: "string option"
  clear_fault :: "string option"
  add_worksheet_fault :: "string option"
  update_fault :: "string option"

subsection \<open>Exceptions as values\<close>

text \<open>
  A statement of the program maps the state to a result and the new state; \<open>Inl e\<close> is
  the exception \<open>e\<close> propagating.
\<close>

type_synonym 'a prog = "st \<Rightarrow> (exn + 'a) \<times> st"

definition ret :: "'a \<Rightarrow> 'a prog" where
  "ret x = (\<lambda>s. (Inr x, s))"

definition raise :: "exn \<Rightarrow> 'a prog" where
  "raise e = (\<lambda>s. (Inl e, s))"

definition bind :: "'a prog \<Rightarrow> ('a \<Rightarrow> 'b prog) \<Rightarrow> 'b prog" where
  "bind m f = (\<lambda>s. case m s of (Inl e, s') \<Rightarrow> (Inl e, s') | (Inr x, s') \<Rightarrow> f x s')"

text \<open>\<^verbatim>\<open>try: m except Exception as e: h e\<close>\<close>

definition try_except :: "'a prog \<Rightarrow> (exn \<Rightarrow> 'a prog) \<Rightarrow> 'a prog" where
  "try_except m h = (\<lambda>s. case m s of (Inl e, s') \<Rightarrow> h e s' | (Inr x, s') \<Rightarrow> (Inr x, s'))"

text \<open>\<^verbatim>\<open>try: m except C: h\<close> for one exception class \<open>C\<close>: any other exception propagates.\<close>

definition try_except_class :: "(exn \<Rightarrow> bool) \<Rightarrow> 'a prog \<Rightarrow> 'a prog \<Rightarrow> 'a prog" where
  "try_except_class C m h =
     (\<lambda>s. case m s of
        (Inl e, s') \<Rightarrow> if C e then h s' else (Inl e, s')
      | (Inr x, s') \<Rightarrow> (Inr x, s'))"

text \<open>
  \<^verbatim>\<open>try: m finally: f\<close>: \<open>f\<close> runs however \<open>m\<close> ends; an exception of \<open>f\<close> replaces
  the outcome of \<open>m\<close>, otherwise the outcome of \<open>m\<close> stands.
\<close>

definition try_finally :: "'a prog \<Rightarrow> unit prog \<Rightarrow> 'a prog" where
  "try_finally m f =
     (\<lambda>s. case m s of (r, s') \<Rightarrow>
        (case f s' of (Inl e, s'') \<Rightarrow> (Inl e, s'') | (Inr u, s'') \<Rightarrow> (r, s'')))"

definition lift :: "exn + 'a \<Rightarrow> 'a prog" where
  "lift r = (\<lambda>s. (r, s))"

definition outcome :: "exn option \<Rightarrow> unit prog" where
  "outcome r = (case r of Some e \<Rightarrow> raise e | None \<Rightarrow> ret ())"

definition logger :: "level \<Rightarrow> string \<Rightarrow> unit prog" where
  "logger l m = (\<lambda>s. (Inr (), s\<lparr>log := log s @ [(l, m)]\<rparr>))"

definition request :: "event \<Rightarrow> unit prog" where
  "request ev = (\<lambda>s. (Inr (), s\<lparr>calls := calls s @ [ev]\<rparr>))"

text \<open>\<^verbatim>\<open>config[key]\<close>\<close>

definition getitem :: "config \<Rightarrow> string \<Rightarrow> string prog" where
  "getitem config key = (case config key of None \<Rightarrow> raise (KeyError key) | Some v \<Rightarrow> ret v)"

section \<open>Loading the configuration, the query and the key\<close>

text \<open>\<^verbatim>\<open>load_config\<close>: open the file and parse it; log and re-raise any failure.\<close>

definition load_config :: "'k world \<Rightarrow> string \<Rightarrow> config prog" where
  "load_config w path =
     try_except
       (bind (lift (json_file w path)) (\<lambda>config.
        bind (logger INFO ''Loaded config.json successfully.'') (\<lambda>_.
        ret config)))
       (\<lambda>e. bind (logger ERROR (''Error loading config.json: '' @ str_exn e)) (\<lambda>_. raise e))"

text \<open>\<^verbatim>\<open>load_query\<close>: the text of the file, with no handler around the read.\<close>

definition load_query :: "'k world \<Rightarrow> string \<Rightarrow> string prog" where
  "load_query w filepath = lift (text_file w filepath)"

subsection \<open>Base64, as \<^verbatim>\<open>base64.b64encode\<close> and \<^verbatim>\<open>base64.b64decode\<close> compute it\<close>

definition b64_alphabet :: string where
  "b64_alphabet = ''ABCDEFGHIJKLMNOPQRSTUVWXYZabcdefghijklmnopqrstuvwxyz0123456789+/''"

definition b64_char :: "nat \<Rightarrow> char" where
  "b64_char n = b64_alphabet ! n"

fun index_of :: "'a \<Rightarrow> 'a list \<Rightarrow> nat option" where
  "index_of x [] = None"
| "index_of x (y # ys) = (if x = y then Some 0 else map_option Suc (index_of x ys))"


fun b64encode :: "byte list \<Rightarrow> string" where
  "b64encode (a # b # c # rest) =
     (let n = unat a * 65536 + unat b * 256 + unat c
      in [b64_char (n div 262144), b64_char (n div 4096 mod 64),
          b64_char (n div 64 mod 64), b64_char (n mod 64)] @ b64encode rest)"
| "b64encode [a, b] =
     (let n = unat a * 65536 + unat b * 256
      in [b64_char (n div 262144), b64_char (n div 4096 mod 64),
          b64_char (n div 64 mod 64), CHR ''=''])"
| "b64encode [a] =
     (let n = unat a * 65536
      in [b64_char (n div 262144), b64_char (n div 4096 mod 64), CHR ''='', CHR ''=''])"
| "b64encode [] = []"


text \<open>
  \<^verbatim>\<open>load_private_key_base64\<close>: read the file, parse the PEM key with no password,
  serialise it as DER/PKCS8 with no encryption and encode the bytes in base64. The
  result of \<^verbatim>\<open>b64encode\<close> is ASCII, so \<^verbatim>\<open>decode("utf-8")\<close> keeps it character by
  character.
\<close>

definition load_private_key_base64 :: "'k world \<Rightarrow> string \<Rightarrow> string prog" where
  "load_private_key_base64 w path =
     try_except
       (bind (lift (binary_file w path)) (\<lambda>pem.
        bind (lift (load_pem_private_key w pem)) (\<lambda>private_key.
        bind (logger INFO ''Private key loaded successfully'') (\<lambda>_.
        ret (b64encode (private_bytes w private_key))))))
       (\<lambda>e. bind (logger ERROR (''Failed to load or convert private key: '' @ str_exn e))
          (\<lambda>_. raise e))"

section \<open>The warehouse client\<close>

record snowflake_url =
  url_user :: string
  url_private_key :: string
  url_account :: string
  url_warehouse :: string
  url_database :: string
  url_schema :: string

text \<open>
  \<^verbatim>\<open>SnowflakeClient.__init__\<close>: the five settings are read while the arguments of
  \<^verbatim>\<open>URL\<close> are evaluated, then the connection is opened and the warehouse selected.
\<close>

definition SnowflakeClient_init :: "'k world \<Rightarrow> config \<Rightarrow> string \<Rightarrow> snowflake_url prog" where
  "SnowflakeClient_init w config private_key_base64 =
     try_except
       (bind (getitem config ''SNOWFLAKE_USER'') (\<lambda>user.
        bind (getitem config ''SNOWFLAKE_ACCOUNT'') (\<lambda>account.
        bind (getitem config ''SNOWFLAKE_WAREHOUSE'') (\<lambda>warehouse.
        bind (getitem config ''SNOWFLAKE_DATABASE'') (\<lambda>database.
        bind (getitem config ''SNOWFLAKE_SCHEMA'') (\<lambda>schema.
        bind (request EngineConnect) (\<lambda>_.
        bind (outcome (connect_result w)) (\<lambda>_.
        bind (getitem config ''SNOWFLAKE_WAREHOUSE'') (\<lambda>wh.
        bind (request (Execute (''USE WAREHOUSE '' @ wh @ '';''))) (\<lambda>_.
        bind (outcome (execute_result w)) (\<lambda>_.
        bind (logger INFO ''Snowflake connection established.'') (\<lambda>_.
        ret \<lparr>url_user = user, url_private_key = private_key_base64, url_account = account,
             url_warehouse = warehouse, url_database = database,
             url_schema = schema\<rparr>))))))))))))
       (\<lambda>e. bind (logger ERROR (''Error initializing Snowflake: '' @ str_exn e)) (\<lambda>_. raise e))"

definition fetch_data :: "'k world \<Rightarrow> snowflake_url \<Rightarrow> string \<Rightarrow> dataframe prog" where
  "fetch_data w self query =
     try_except
       (bind (logger INFO ''Fetching data from Snowflake...'') (\<lambda>_.
        bind (request (ReadSql query)) (\<lambda>_.
        lift (read_sql_result w))))
       (\<lambda>e. bind (logger ERROR (''Error fetching data: '' @ str_exn e)) (\<lambda>_. raise e))"

text \<open>\<^verbatim>\<open>SnowflakeClient.close\<close>: the handler logs and does not re-raise.\<close>

definition close :: "'k world \<Rightarrow> snowflake_url \<Rightarrow> unit prog" where
  "close w self =
     try_except
       (bind (logger INFO ''Closing Snowflake connection.'') (\<lambda>_.
        bind (request ConnectionClose) (\<lambda>_.
        outcome (close_result w))))
       (\<lambda>e. logger ERROR (''Error closing Snowflake connection: '' @ str_exn e))"

section \<open>The spreadsheet client\<close>

definition GoogleSheetsClient_init :: "'k world \<Rightarrow> string \<Rightarrow> unit prog" where
  "GoogleSheetsClient_init w json_keyfile =
     try_except
       (bind (outcome (keyfile_result w json_keyfile)) (\<lambda>_.
        bind (request Authorize) (\<lambda>_.
        bind (outcome (authorize_result w)) (\<lambda>_.
        logger INFO ''Google Sheets authorization successful''))))
       (\<lambda>e. bind (logger ERROR (''Authorization error: '' @ str_exn e)) (\<lambda>_. raise e))"

definition get_spreadsheet_by_url :: "'k world \<Rightarrow> string \<Rightarrow> unit prog" where
  "get_spreadsheet_by_url w url =
     try_except
       (bind (request (OpenByUrl url)) (\<lambda>_.
        bind (outcome (open_by_url_result w)) (\<lambda>_.
        logger INFO (''Opened Google Spreadsheet: '' @ url))))
       (\<lambda>e. bind (logger ERROR (''Could not open spreadsheet by URL: '' @ str_exn e))
          (\<lambda>_. raise e))"

section \<open>Writing the worksheet\<close>

text \<open>
  The calls of gspread the program makes, on the worksheets held in the state. A
  worksheet object is the position of the worksheet in the spreadsheet. A request
  that fails changes nothing.
\<close>

definition modify_sheet :: "nat \<Rightarrow> (worksheet \<Rightarrow> worksheet) \<Rightarrow> unit prog" where
  "modify_sheet i f = (\<lambda>s. (Inr (), s\<lparr>sheets := (sheets s)[i := f (sheets s ! i)]\<rparr>))"

text \<open>\<^verbatim>\<open>spreadsheet.worksheet(title)\<close>: the first worksheet with the title.\<close>

definition spreadsheet_worksheet :: "'k world \<Rightarrow> string \<Rightarrow> nat prog" where
  "spreadsheet_worksheet w t =
     bind (request (GetWorksheet t)) (\<lambda>_.
     bind (outcome (map_option APIError (worksheet_fault w))) (\<lambda>_.
     (\<lambda>s. case index_of t (map title (sheets s)) of
            None \<Rightarrow> (Inl (WorksheetNotFound t), s)
          | Some i \<Rightarrow> (Inr i, s))))"

text \<open>\<^verbatim>\<open>worksheet.clear()\<close>: every cell of the worksheet becomes empty.\<close>

definition worksheet_clear :: "'k world \<Rightarrow> nat \<Rightarrow> unit prog" where
  "worksheet_clear w i =
     bind (request (Clear i)) (\<lambda>_.
     bind (outcome (map_option APIError (clear_fault w))) (\<lambda>_.
     modify_sheet i (\<lambda>ws. ws\<lparr>cells := Map.empty\<rparr>)))"

text \<open>
  \<^verbatim>\<open>spreadsheet.add_worksheet(title, rows, cols)\<close>: a new, empty worksheet after the
  others. The program passes the two sizes as decimal strings, which the service
  reads as numbers; it refuses a title that is taken.
\<close>

definition add_worksheet :: "'k world \<Rightarrow> string \<Rightarrow> string \<Rightarrow> string \<Rightarrow> nat prog" where
  "add_worksheet w t r c =
     bind (request (AddWorksheet t r c)) (\<lambda>_.
     bind (outcome (map_option APIError (add_worksheet_fault w))) (\<lambda>_.
     (\<lambda>s. if t \<in> set (map title (sheets s))
          then (Inl (APIError ''A sheet with this name already exists''), s)
          else (Inr (length (sheets s)),
                s\<lparr>sheets := sheets s @
                     [\<lparr>title = t, row_count = nat_of_str r, col_count = nat_of_str c,
                       cells = Map.empty\<rparr>]\<rparr>))))"

text \<open>The cells a block of rows occupies when its first cell is \<^verbatim>\<open>A1\<close>.\<close>

definition block :: "pyval list list \<Rightarrow> nat \<times> nat \<rightharpoonup> pyval" where
  "block data =
     (\<lambda>(i, j). if i < length data \<and> j < length (data ! i) then Some (data ! i ! j) else None)"

definition width :: "pyval list list \<Rightarrow> nat" where
  "width data = foldr (\<lambda>r. max (length r)) data 0"

text \<open>
  \<^verbatim>\<open>worksheet.update("A1", data)\<close>: the block is written from the top-left cell, the
  cells outside it keep their content, and the grid grows when the block is larger.
\<close>

definition worksheet_update :: "'k world \<Rightarrow> nat \<Rightarrow> pyval list list \<Rightarrow> unit prog" where
  "worksheet_update w i data =
     bind (request (Update i ''A1'' data)) (\<lambda>_.
     bind (outcome (map_option APIError (update_fault w))) (\<lambda>_.
     modify_sheet i (\<lambda>ws. ws\<lparr>row_count := max (row_count ws) (length data),
                             col_count := max (col_count ws) (width data),
                             cells := cells ws ++ block data\<rparr>)))"

definition is_WorksheetNotFound :: "exn \<Rightarrow> bool" where
  "is_WorksheetNotFound e = (case e of WorksheetNotFound t \<Rightarrow> True | _ \<Rightarrow> False)"

definition quote :: "string \<Rightarrow> string" where
  "quote s = [CHR 0x27] @ s @ [CHR 0x27]"

text \<open>
  \<^verbatim>\<open>SheetManager.overwrite_with_dataframe\<close>: the inner \<^verbatim>\<open>try\<close> covers the lookup and
  the clear and handles \<^verbatim>\<open>WorksheetNotFound\<close> only; the outer one covers everything
  and turns any exception into \<^verbatim>\<open>False\<close>.
\<close>

definition overwrite_with_dataframe :: "'k world \<Rightarrow> string \<Rightarrow> dataframe \<Rightarrow> bool prog" where
  "overwrite_with_dataframe w sheet_name df =
     try_except
       (bind (try_except_class is_WorksheetNotFound
                (bind (spreadsheet_worksheet w sheet_name) (\<lambda>worksheet.
                 bind (worksheet_clear w worksheet) (\<lambda>_.
                 bind (logger INFO (''Sheet '' @ quote sheet_name @ '' cleared.'')) (\<lambda>_.
                 ret worksheet))))
                (bind (add_worksheet w sheet_name
                         (str_nat (max 100 (length (rows df) + 1)))
                         (str_nat (max 10 (length (columns df) + 1)))) (\<lambda>worksheet.
                 bind (logger INFO (''Created new sheet '' @ quote sheet_name @ ''.'')) (\<lambda>_.
                 ret worksheet))))
          (\<lambda>worksheet.
           bind (worksheet_update w worksheet (map PStr (columns df) # rows df)) (\<lambda>_.
           bind (logger INFO
                   (''Data successfully written to sheet '' @ quote sheet_name @ ''.'')) (\<lambda>_.
           ret True))))
       (\<lambda>e. bind (logger ERROR
                    (''Failed to write data to sheet '' @ quote sheet_name @ '': '' @ str_exn e))
          (\<lambda>_. ret False))"

section \<open>The orchestrator\<close>

definition main :: "'k world \<Rightarrow> unit prog" where
  "main w =
     bind (load_config w ''config.json'') (\<lambda>config.
     bind (load_query w ''query.sql'') (\<lambda>query.
     bind (getitem config ''RSA_KEY_PATH'') (\<lambda>rsa_key_path.
     bind (load_private_key_base64 w rsa_key_path) (\<lambda>private_key_base64.
     bind (SnowflakeClient_init w config private_key_base64) (\<lambda>db.
     bind (try_finally
             (bind (fetch_data w db query) (\<lambda>df.
              ret (setitem df ''update_date'' (PStr (isoformat (today w))))))
             (close w db)) (\<lambda>df.
     bind (getitem config ''GOOGLE_KEYFILE_PATH'') (\<lambda>keyfile.
     bind (GoogleSheetsClient_init w keyfile) (\<lambda>sheets_client.
     bind (getitem config ''SPREADSHEET_URL'') (\<lambda>url.
     bind (get_spreadsheet_by_url w url) (\<lambda>spreadsheet.
     bind (getitem config ''SHEET_NAME'') (\<lambda>sheet_name.
     bind (overwrite_with_dataframe w sheet_name df) (\<lambda>success.
     if success then logger INFO ''Data successfully pushed to Google Sheets.''
     else logger WARNING ''Data push to Google Sheets failed.''))))))))))))"

section \<open>The phases of the orchestrator\<close>

text \<open>
  Two parts of \<^verbatim>\<open>main\<close>, named so that they can be studied on their own: the
  \<^verbatim>\<open>try\<close>/\<^verbatim>\<open>finally\<close> block that fetches the table, stamps it and closes the
  connection, and the statements after it, which push the table to the spreadsheet.
  Lemma \<open>main_phases\<close> below shows that \<^verbatim>\<open>main\<close> is their composition.
\<close>

definition fetch_and_stamp :: "'k world \<Rightarrow> snowflake_url \<Rightarrow> string \<Rightarrow> dataframe prog" where
  "fetch_and_stamp w db query =
     try_finally
       (bind (fetch_data w db query) (\<lambda>df.
        ret (setitem df ''update_date'' (PStr (isoformat (today w))))))
       (close w db)"

definition push_to_sheets :: "'k world \<Rightarrow> config \<Rightarrow> dataframe \<Rightarrow> unit prog" where
  "push_to_sheets w config df =
     bind (getitem config ''GOOGLE_KEYFILE_PATH'') (\<lambda>keyfile.
     bind (GoogleSheetsClient_init w keyfile) (\<lambda>sheets_client.
     bind (getitem config ''SPREADSHEET_URL'') (\<lambda>url.
     bind (get_spreadsheet_by_url w url) (\<lambda>spreadsheet.
     bind (getitem config ''SHEET_NAME'') (\<lambda>sheet_name.
     bind (overwrite_with_dataframe w sheet_name df) (\<lambda>success.
     if success then logger INFO ''Data successfully pushed to Google Sheets.''
     else logger WARNING ''Data push to Google Sheets failed.''))))))"

text \<open>Every request the sheet writer sends from state \<open>s\<close> succeeds.\<close>

definition sheet_requests_succeed :: "'k world \<Rightarrow> string \<Rightarrow> st \<Rightarrow> bool" where
  "sheet_requests_succeed w name s =
     (worksheet_fault w = None \<and>
      (if name \<in> set (map title (sheets s)) then clear_fault w = None
       else add_worksheet_fault w = None) \<and>
      update_fault w = None)"

text \<open>Shorthands for the statements of the lemmas on the stages.\<close>

definition init_failed :: "exn \<Rightarrow> event list \<Rightarrow> st \<Rightarrow> (exn + snowflake_url) \<times> st" where
  "init_failed e cs s =
     (Inl e, s\<lparr>calls := calls s @ cs,
                log := log s @ [(ERROR, ''Error initializing Snowflake: '' @ str_exn e)]\<rparr>)"

definition close_log :: "'k world \<Rightarrow> (level \<times> string) list" where
  "close_log w =
     (INFO, ''Closing Snowflake connection.'') #
     (case close_result w of
        None \<Rightarrow> []
      | Some e \<Rightarrow> [(ERROR, ''Error closing Snowflake connection: '' @ str_exn e)])"

definition push_message :: "bool \<Rightarrow> level \<times> string" where
  "push_message success =
     (if success then (INFO, ''Data successfully pushed to Google Sheets.'')
      else (WARNING, ''Data push to Google Sheets failed.''))"

text \<open>The settings \<^verbatim>\<open>main\<close> reads before it opens the connection to the warehouse.\<close>

definition required_before_connect :: "string list" where
  "required_before_connect =
     [''RSA_KEY_PATH'', ''SNOWFLAKE_USER'', ''SNOWFLAKE_ACCOUNT'', ''SNOWFLAKE_WAREHOUSE'',
      ''SNOWFLAKE_DATABASE'', ''SNOWFLAKE_SCHEMA'']"

section \<open>Observing a run\<close>

text \<open>The requests sent between two states of a run.\<close>

definition new_calls :: "st \<Rightarrow> st \<Rightarrow> event list" where
  "new_calls s s' = drop (length (calls s)) (calls s')"

definition is_AddWorksheet :: "event \<Rightarrow> bool" where
  "is_AddWorksheet ev = (case ev of AddWorksheet t r c \<Rightarrow> True | _ \<Rightarrow> False)"

definition is_Update :: "event \<Rightarrow> bool" where
  "is_Update ev = (case ev of Update i a d \<Rightarrow> True | _ \<Rightarrow> False)"

section \<open>Example inputs\<close>

text \<open>The run of the end-to-end scenario: a table of two columns and two rows, on 2024-01-01.\<close>

definition example_date :: date where
  "example_date = \<lparr>year = 2024, month = 1, day = 1\<rparr>"

definition example_table :: dataframe where
  "example_table =
     \<lparr>columns = [''id'', ''amount''], rows = [[PInt 1, PInt 10], [PInt 2, PInt 20]]\<rparr>"

text \<open>A query result that already carries a column \<^verbatim>\<open>update_date\<close>.\<close>

definition stamped_table :: dataframe where
  "stamped_table =
     \<lparr>columns = [''id'', ''update_date''], rows = [[PInt 1, PStr ''2023-12-31'']]\<rparr>"

text \<open>A configuration with every setting, and a world in which every step succeeds.\<close>

definition example_config :: config where
  "example_config =
     [''SNOWFLAKE_USER'' \<mapsto> ''etl'', ''SNOWFLAKE_ACCOUNT'' \<mapsto> ''acme'',
      ''SNOWFLAKE_WAREHOUSE'' \<mapsto> ''WH'', ''SNOWFLAKE_DATABASE'' \<mapsto> ''DB'',
      ''SNOWFLAKE_SCHEMA'' \<mapsto> ''PUBLIC'', ''RSA_KEY_PATH'' \<mapsto> ''rsa_key.pem'',
      ''GOOGLE_KEYFILE_PATH'' \<mapsto> ''keyfile.json'',
      ''SPREADSHEET_URL'' \<mapsto> ''https://sheets/1'', ''SHEET_NAME'' \<mapsto> ''Report'']"

definition example_world :: "byte list world" where
  "example_world =
     \<lparr>json_file = (\<lambda>p. if p = ''config.json'' then Inr example_config else Inl (OSError p)),
      text_file =
        (\<lambda>p. if p = ''query.sql'' then Inr ''select id, amount from t'' else Inl (OSError p)),
      binary_file = (\<lambda>p. if p = ''rsa_key.pem'' then Inr [1, 2, 3, 4] else Inl (OSError p)),
      load_pem_private_key = (\<lambda>pem. if pem = [] then Inl (ValueError ''no key'') else Inr pem),
      private_bytes = (\<lambda>k. k),
      today = example_date,
      connect_result = None, execute_result = None, read_sql_result = Inr example_table,
      close_result = None, keyfile_result = (\<lambda>p. None), authorize_result = None,
      open_by_url_result = None, worksheet_fault = None, clear_fault = None,
      add_worksheet_fault = None, update_fault = None\<rparr>"

text \<open>A worksheet \<^verbatim>\<open>Report\<close> left by an earlier run, with content beyond the new table.\<close>

definition old_report :: worksheet where
  "old_report =
     \<lparr>title = ''Report'', row_count = 5, col_count = 5,
      cells = [(0, 0) \<mapsto> PStr ''stale'', (7, 7) \<mapsto> PInt 99]\<rparr>"

definition example_db :: snowflake_url where
  "example_db =
     \<lparr>url_user = ''etl'', url_private_key = ''AQIDBA=='', url_account = ''acme'',
      url_warehouse = ''WH'', url_database = ''DB'', url_schema = ''PUBLIC''\<rparr>"

text \<open>The world of the example when the query returns \<open>stamped_table\<close>.\<close>

definition world_restamp :: "byte list world" where
  "world_restamp = example_world\<lparr>read_sql_result := Inr stamped_table\<rparr>"

text \<open>The world of the example with one setting missing from the configuration.\<close>

definition world_missing :: "string \<Rightarrow> byte list world" where
  "world_missing k = example_world\<lparr>json_file := (\<lambda>p. Inr (example_config(k := None)))\<rparr>"

text \<open>Worlds in which one step fails: the query file, the fetch and the close, the write.\<close>

definition world_query_missing :: "byte list world" where
  "world_query_missing =
     example_world\<lparr>text_file := (\<lambda>p. Inl (OSError ''No such file or directory: query.sql''))\<rparr>"

definition world_fetch_fails :: "byte list world" where
  "world_fetch_fails =
     example_world\<lparr>read_sql_result := Inl (DatabaseError ''syntax error''),
                    close_result := Some (DatabaseError ''connection lost'')\<rparr>"

definition world_update_fails :: "byte list world" where
  "world_update_fails = example_world\<lparr>update_fault := Some ''quota exceeded''\<rparr>"

section \<open>Decimal strings and dates\<close>

lemma is_digit_digit_char: "d < 10 \<Longrightarrow> is_digit (digit_char d)"
  by (simp add: is_digit_def digit_char_def)

lemma digit_val_digit_char: "d < 10 \<Longrightarrow> digit_val (digit_char d) = d"
  by (simp add: digit_val_def digit_char_def)

lemma str_nat_digits: "list_all is_digit (str_nat n)"
proof (induction n rule: str_nat.induct)
  case (1 n)
  show ?case
  proof (cases "n < 10")
    case True
    then show ?thesis by (subst str_nat.simps) (simp add: is_digit_digit_char)
  next
    case False
    with 1 show ?thesis by (subst str_nat.simps) (simp add: is_digit_digit_char)
  qed
qed

lemma nat_of_str_snoc: "nat_of_str (s @ [c]) = 10 * nat_of_str s + digit_val c"
  by (simp add: nat_of_str_def)

text \<open>Reading a rendered number back gives the number.\<close>

lemma nat_of_str_str_nat: "nat_of_str (str_nat n) = n"
proof (induction n rule: str_nat.induct)
  case (1 n)
  show ?case
  proof (cases "n < 10")
    case True
    then show ?thesis
      by (subst str_nat.simps) (simp add: nat_of_str_def digit_val_digit_char)
  next
    case False
    with 1 show ?thesis
      by (subst str_nat.simps) (simp add: nat_of_str_snoc digit_val_digit_char)
  qed
qed

lemma length_str_nat_le: "n < 10 ^ k \<Longrightarrow> 0 < k \<Longrightarrow> length (str_nat n) \<le> k"
proof (induction n arbitrary: k rule: str_nat.induct)
  case (1 n)
  show ?case
  proof (cases "n < 10")
    case True
    with 1 show ?thesis by (subst str_nat.simps) simp
  next
    case False
    obtain j where k: "k = Suc j" using 1(3) by (cases k) auto
    have "j \<noteq> 0" using False 1(2) k by (cases j) auto
    moreover have "n div 10 < 10 ^ j"
      using 1(2) k by (simp add: less_mult_imp_div_less mult.commute)
    ultimately have "length (str_nat (n div 10)) \<le> j" using 1(1)[OF False] by simp
    then show ?thesis using False k by (subst str_nat.simps) simp
  qed
qed

lemma nat_of_str_zeros: "nat_of_str (replicate k (CHR ''0'') @ s) = nat_of_str s"
proof -
  have "foldl (\<lambda>a c. 10 * a + digit_val c) 0 (replicate k (CHR ''0'')) = 0"
    by (induction k) (simp_all add: digit_val_def)
  then show ?thesis by (simp add: nat_of_str_def)
qed

lemma nat_of_str_zfill: "nat_of_str (zfill w (str_nat n)) = n"
  by (simp add: zfill_def nat_of_str_zeros nat_of_str_str_nat)

lemma zfill_digits: "list_all is_digit (zfill w (str_nat n))"
  using str_nat_digits[of n] by (auto simp: zfill_def list_all_iff is_digit_def)

lemma length_zfill: "length s \<le> w \<Longrightarrow> length (zfill w s) = w"
  by (simp add: zfill_def)

lemma days_in_month_le: "days_in_month y m \<le> 31"
  by (simp add: days_in_month_def)

text \<open>The string \<^verbatim>\<open>isoformat\<close> returns for a date is a calendar date of ISO 8601.\<close>

lemma isoformat_iso8601:
  assumes "valid_date d"
  shows "iso8601_date (isoformat d)"
proof -
  let ?y = "zfill 4 (str_nat (year d))" and ?m = "zfill 2 (str_nat (month d))"
    and ?d = "zfill 2 (str_nat (day d))"
  have dl: "day d \<le> 31"
    using assms days_in_month_le[of "year d" "month d"] by (simp add: valid_date_def)
  have ly: "length ?y = 4" using assms
    by (intro length_zfill length_str_nat_le) (simp_all add: valid_date_def)
  have lm: "length ?m = 2" using assms
    by (intro length_zfill length_str_nat_le) (simp_all add: valid_date_def)
  have ld: "length ?d = 2" using dl
    by (intro length_zfill length_str_nat_le) simp_all
  have iso: "isoformat d = ?y @ CHR ''-'' # ?m @ CHR ''-'' # ?d"
    by (simp add: isoformat_def)
  have t4: "take 4 (isoformat d) = ?y" using ly by (simp add: iso)
  have d5: "take 2 (drop 5 (isoformat d)) = ?m" using ly lm by (simp add: iso)
  have d8: "drop 8 (isoformat d) = ?d" using ly lm by (simp add: iso)
  have c4: "isoformat d ! 4 = CHR ''-''" using ly by (simp add: iso nth_append)
  have c7: "isoformat d ! 7 = CHR ''-''" using ly lm by (simp add: iso nth_append nth_Cons')
  have len: "length (isoformat d) = 10" using ly lm ld by (simp add: iso)
  show ?thesis
    unfolding iso8601_date_def t4 d5 d8 c4 c7 len
    using assms dl by (simp add: zfill_digits nat_of_str_zfill valid_date_def)
qed

lemma isoformat_example: "isoformat example_date = ''2024-01-01''"
  unfolding example_date_def by code_simp

lemma valid_example_date: "valid_date example_date"
  by (simp add: example_date_def valid_date_def days_in_month_def)

section \<open>The stages of a run\<close>

text \<open>Each function of the program as one equation on the state it starts from.\<close>

lemma main_phases:
  "main w =
     bind (load_config w ''config.json'') (\<lambda>config.
     bind (load_query w ''query.sql'') (\<lambda>query.
     bind (getitem config ''RSA_KEY_PATH'') (\<lambda>rsa_key_path.
     bind (load_private_key_base64 w rsa_key_path) (\<lambda>private_key_base64.
     bind (SnowflakeClient_init w config private_key_base64) (\<lambda>db.
     bind (fetch_and_stamp w db query) (\<lambda>df.
     push_to_sheets w config df))))))"
  unfolding main_def fetch_and_stamp_def push_to_sheets_def ..

lemmas app_defs = bind_def ret_def raise_def try_except_def try_finally_def
  lift_def outcome_def logger_def request_def getitem_def

lemma load_config_apply:
  "load_config w p s =
     (case json_file w p of
        Inl e \<Rightarrow> (Inl e, s\<lparr>log := log s @ [(ERROR, ''Error loading config.json: '' @ str_exn e)]\<rparr>)
      | Inr c \<Rightarrow> (Inr c, s\<lparr>log := log s @ [(INFO, ''Loaded config.json successfully.'')]\<rparr>))"
  by (simp add: load_config_def app_defs split: sum.splits)

lemma load_query_apply: "load_query w p s = (text_file w p, s)"
  by (simp add: load_query_def lift_def)

lemma getitem_apply:
  "getitem c k s = (case c k of None \<Rightarrow> (Inl (KeyError k), s) | Some v \<Rightarrow> (Inr v, s))"
  by (simp add: getitem_def raise_def ret_def split: option.splits)

lemma load_private_key_base64_apply:
  "load_private_key_base64 w p s =
     (case binary_file w p of
        Inl e \<Rightarrow> (Inl e, s\<lparr>log := log s @
                   [(ERROR, ''Failed to load or convert private key: '' @ str_exn e)]\<rparr>)
      | Inr pem \<Rightarrow>
          (case load_pem_private_key w pem of
             Inl e \<Rightarrow> (Inl e, s\<lparr>log := log s @
                   [(ERROR, ''Failed to load or convert private key: '' @ str_exn e)]\<rparr>)
           | Inr k \<Rightarrow> (Inr (b64encode (private_bytes w k)),
                       s\<lparr>log := log s @ [(INFO, ''Private key loaded successfully'')]\<rparr>)))"
  by (simp add: load_private_key_base64_def app_defs split: sum.splits)

lemma SnowflakeClient_init_apply:
  "SnowflakeClient_init w c pk s =
     (case c ''SNOWFLAKE_USER'' of
        None \<Rightarrow> init_failed (KeyError ''SNOWFLAKE_USER'') [] s
      | Some user \<Rightarrow>
     (case c ''SNOWFLAKE_ACCOUNT'' of
        None \<Rightarrow> init_failed (KeyError ''SNOWFLAKE_ACCOUNT'') [] s
      | Some account \<Rightarrow>
     (case c ''SNOWFLAKE_WAREHOUSE'' of
        None \<Rightarrow> init_failed (KeyError ''SNOWFLAKE_WAREHOUSE'') [] s
      | Some warehouse \<Rightarrow>
     (case c ''SNOWFLAKE_DATABASE'' of
        None \<Rightarrow> init_failed (KeyError ''SNOWFLAKE_DATABASE'') [] s
      | Some database \<Rightarrow>
     (case c ''SNOWFLAKE_SCHEMA'' of
        None \<Rightarrow> init_failed (KeyError ''SNOWFLAKE_SCHEMA'') [] s
      | Some schema \<Rightarrow>
     (case connect_result w of
        Some e \<Rightarrow> init_failed e [EngineConnect] s
      | None \<Rightarrow>
     (case execute_result w of
        Some e \<Rightarrow>
          init_failed e [EngineConnect, Execute (''USE WAREHOUSE '' @ warehouse @ '';'')] s
      | None \<Rightarrow>
         (Inr \<lparr>url_user = user, url_private_key = pk, url_account = account,
               url_warehouse = warehouse, url_database = database, url_schema = schema\<rparr>,
          s\<lparr>calls := calls s @ [EngineConnect, Execute (''USE WAREHOUSE '' @ warehouse @ '';'')],
            log := log s @ [(INFO, ''Snowflake connection established.'')]\<rparr>))))))))"
  by (simp add: SnowflakeClient_init_def init_failed_def app_defs split: option.splits)

lemma close_apply:
  "close w db s = (Inr (), s\<lparr>calls := calls s @ [ConnectionClose], log := log s @ close_log w\<rparr>)"
  by (simp add: close_def close_log_def app_defs split: option.splits)

lemma fetch_data_apply:
  "fetch_data w db q s =
     (case read_sql_result w of
        Inl e \<Rightarrow> (Inl e, s\<lparr>calls := calls s @ [ReadSql q],
                    log := log s @ [(INFO, ''Fetching data from Snowflake...''),
                                    (ERROR, ''Error fetching data: '' @ str_exn e)]\<rparr>)
      | Inr df \<Rightarrow> (Inr df, s\<lparr>calls := calls s @ [ReadSql q],
                    log := log s @ [(INFO, ''Fetching data from Snowflake...'')]\<rparr>))"
  by (simp add: fetch_data_def app_defs split: sum.splits)

lemma fetch_and_stamp_apply:
  "fetch_and_stamp w db q s =
     (case read_sql_result w of
        Inl e \<Rightarrow> (Inl e, s\<lparr>calls := calls s @ [ReadSql q, ConnectionClose],
                    log := log s @ [(INFO, ''Fetching data from Snowflake...''),
                                    (ERROR, ''Error fetching data: '' @ str_exn e)] @ close_log w\<rparr>)
      | Inr df \<Rightarrow> (Inr (setitem df ''update_date'' (PStr (isoformat (today w)))),
                   s\<lparr>calls := calls s @ [ReadSql q, ConnectionClose],
                    log := log s @ [(INFO, ''Fetching data from Snowflake...'')] @ close_log w\<rparr>))"
  by (simp add: fetch_and_stamp_def try_finally_def bind_def ret_def fetch_data_apply close_apply
      split: sum.splits)

lemma GoogleSheetsClient_init_apply:
  "GoogleSheetsClient_init w kf s =
     (case keyfile_result w kf of
        Some e \<Rightarrow> (Inl e, s\<lparr>log := log s @ [(ERROR, ''Authorization error: '' @ str_exn e)]\<rparr>)
      | None \<Rightarrow>
         (case authorize_result w of
            Some e \<Rightarrow> (Inl e, s\<lparr>calls := calls s @ [Authorize],
                          log := log s @ [(ERROR, ''Authorization error: '' @ str_exn e)]\<rparr>)
          | None \<Rightarrow> (Inr (), s\<lparr>calls := calls s @ [Authorize],
                          log := log s @ [(INFO, ''Google Sheets authorization successful'')]\<rparr>)))"
  by (simp add: GoogleSheetsClient_init_def app_defs split: option.splits)

lemma get_spreadsheet_by_url_apply:
  "get_spreadsheet_by_url w url s =
     (case open_by_url_result w of
        Some e \<Rightarrow> (Inl e, s\<lparr>calls := calls s @ [OpenByUrl url],
                      log := log s @ [(ERROR, ''Could not open spreadsheet by URL: '' @ str_exn e)]\<rparr>)
      | None \<Rightarrow> (Inr (), s\<lparr>calls := calls s @ [OpenByUrl url],
                      log := log s @ [(INFO, ''Opened Google Spreadsheet: '' @ url)]\<rparr>))"
  by (simp add: get_spreadsheet_by_url_def app_defs split: option.splits)

section \<open>The date stamp\<close>

lemma setitem_absent:
  assumes "key \<notin> set (columns df)"
  shows "columns (setitem df key v) = columns df @ [key]"
    and "rows (setitem df key v) = map (\<lambda>r. r @ [v]) (rows df)"
  using assms by (simp_all add: setitem_def)

lemma setitem_present:
  assumes "key \<in> set (columns df)"
  shows "columns (setitem df key v) = columns df"
    and "rows (setitem df key v) =
           map (\<lambda>r. map (\<lambda>(c, x). if c = key then v else x) (zip (columns df) r)) (rows df)"
  using assms by (simp_all add: setitem_def)

text \<open>
  Claim C1, as amended. The date stamp of the orchestrator is
  \<^verbatim>\<open>df["update_date"] = date.today().isoformat()\<close>, inside the \<^verbatim>\<open>try\<close> block. For
  a query result of R rows and C columns that has no column named \<^verbatim>\<open>update_date\<close>,
  the table that leaves the block has R rows and C + 1 columns: the old columns in
  their order, then \<^verbatim>\<open>update_date\<close>; every row is the old row followed by one and the
  same string, and that string is an ISO 8601 date.
\<close>

theorem date_stamp_appends_column:
  assumes fetched: "read_sql_result w = Inr df"
    and wf: "wf_dataframe df"
    and fresh: "''update_date'' \<notin> set (columns df)"
    and d: "valid_date (today w)"
  shows "\<exists>df'. fst (fetch_and_stamp w db query s) = Inr df' \<and>
           length (rows df') = length (rows df) \<and>
           length (columns df') = length (columns df) + 1 \<and>
           wf_dataframe df' \<and>
           columns df' = columns df @ [''update_date''] \<and>
           (\<forall>i < length (rows df). rows df' ! i = rows df ! i @ [PStr (isoformat (today w))]) \<and>
           iso8601_date (isoformat (today w))"
  using fetched wf isoformat_iso8601[OF d]
  by (simp add: fetch_and_stamp_apply setitem_absent[OF fresh] wf_dataframe_def list_all_iff)

lemma example_stamped:
  "fst (fetch_and_stamp example_world example_db ''select id, amount from t'' (init [])) =
     Inr \<lparr>columns = [''id'', ''amount'', ''update_date''],
          rows = [[PInt 1, PInt 10, PStr ''2024-01-01''], [PInt 2, PInt 20, PStr ''2024-01-01'']]\<rparr>"
  by (simp add: fetch_and_stamp_apply example_world_def example_table_def setitem_def
      isoformat_example)

theorem date_stamp_appends_column_witness:
  "read_sql_result example_world = Inr example_table \<and> wf_dataframe example_table \<and>
   ''update_date'' \<notin> set (columns example_table) \<and> valid_date (today example_world) \<and>
   fst (fetch_and_stamp example_world example_db ''select id, amount from t'' (init [])) =
     Inr \<lparr>columns = [''id'', ''amount'', ''update_date''],
          rows = [[PInt 1, PInt 10, PStr ''2024-01-01''], [PInt 2, PInt 20, PStr ''2024-01-01'']]\<rparr>"
proof -
  have h: "read_sql_result example_world = Inr example_table" "wf_dataframe example_table"
    "''update_date'' \<notin> set (columns example_table)" "valid_date (today example_world)"
    using valid_example_date
    by (simp_all add: example_world_def example_table_def wf_dataframe_def)
  from date_stamp_appends_column[OF h, of example_db "''select id, amount from t''" "init []"]
  obtain df' where
    "fst (fetch_and_stamp example_world example_db ''select id, amount from t'' (init [])) = Inr df'"
    by blast
  with h example_stamped show ?thesis by simp
qed

text \<open>
  Claim C1 as stated fails: \<open>stamped_table\<close> is a rectangular query result of one row
  and two columns, and the table that leaves the block still has two columns.
\<close>

theorem date_stamp_column_count_counterexample:
  "read_sql_result world_restamp = Inr stamped_table \<and> wf_dataframe stamped_table \<and>
   length (columns stamped_table) = 2 \<and>
   fst (fetch_and_stamp world_restamp example_db ''select id, update_date from t'' (init [])) =
     Inr \<lparr>columns = [''id'', ''update_date''], rows = [[PInt 1, PStr ''2024-01-01'']]\<rparr>"
  by (simp add: fetch_and_stamp_apply world_restamp_def example_world_def stamped_table_def
      wf_dataframe_def setitem_def isoformat_example)

text \<open>
  Claim C10. When the query result already has a column named \<^verbatim>\<open>update_date\<close>, the
  date stamp of the orchestrator overwrites that column in place: the table that leaves
  the \<^verbatim>\<open>try\<close> block has the same column labels, so C columns and not C + 1, and
  the same number of rows; every cell under the label \<^verbatim>\<open>update_date\<close> holds the run
  date and every other cell keeps its value.
\<close>

theorem date_stamp_overwrites_existing_column:
  assumes fetched: "read_sql_result w = Inr df"
    and wf: "wf_dataframe df"
    and old: "''update_date'' \<in> set (columns df)"
  shows "\<exists>df'. fst (fetch_and_stamp w db query s) = Inr df' \<and>
           columns df' = columns df \<and>
           length (columns df') = length (columns df) \<and>
           length (rows df') = length (rows df) \<and>
           wf_dataframe df' \<and>
           (\<forall>i < length (rows df). \<forall>j < length (columns df).
              rows df' ! i ! j =
                (if columns df ! j = ''update_date'' then PStr (isoformat (today w))
                 else rows df ! i ! j))"
  using fetched wf
  by (auto simp: fetch_and_stamp_apply setitem_present[OF old] wf_dataframe_def list_all_iff)

lemma example_restamped:
  "fst (fetch_and_stamp world_restamp example_db ''select id, update_date from t'' (init [])) =
     Inr \<lparr>columns = [''id'', ''update_date''], rows = [[PInt 1, PStr ''2024-01-01'']]\<rparr>"
  by (simp add: fetch_and_stamp_apply world_restamp_def example_world_def stamped_table_def
      setitem_def isoformat_example)

theorem date_stamp_overwrites_existing_column_witness:
  "read_sql_result world_restamp = Inr stamped_table \<and> wf_dataframe stamped_table \<and>
   ''update_date'' \<in> set (columns stamped_table) \<and>
   rows stamped_table = [[PInt 1, PStr ''2023-12-31'']] \<and>
   fst (fetch_and_stamp world_restamp example_db ''select id, update_date from t'' (init [])) =
     Inr \<lparr>columns = [''id'', ''update_date''], rows = [[PInt 1, PStr ''2024-01-01'']]\<rparr>"
proof -
  have h: "read_sql_result world_restamp = Inr stamped_table" "wf_dataframe stamped_table"
    "''update_date'' \<in> set (columns stamped_table)"
    by (simp_all add: world_restamp_def example_world_def stamped_table_def wf_dataframe_def)
  from date_stamp_overwrites_existing_column[OF h, of example_db "''select id, update_date from t''" "init []"]
  obtain df' where
    "fst (fetch_and_stamp world_restamp example_db ''select id, update_date from t'' (init []))
       = Inr df'" by blast
  with h example_restamped show ?thesis by (simp add: stamped_table_def)
qed

section \<open>The sheet writer\<close>

lemma index_of_None: "index_of x xs = None \<longleftrightarrow> x \<notin> set xs"
  by (induction xs) auto

lemma index_of_Some: "index_of x xs = Some i \<Longrightarrow> i < length xs \<and> xs ! i = x"
  by (induction xs arbitrary: i) (auto split: if_splits)

lemma index_of_append_new: "x \<notin> set xs \<Longrightarrow> index_of x (xs @ [x]) = Some (length xs)"
  by (induction xs) auto

lemma index_of_in: "x \<in> set xs \<Longrightarrow> \<exists>i. index_of x xs = Some i"
  using index_of_None[of x xs] by (cases "index_of x xs") auto

lemmas prog_defs = bind_def ret_def raise_def try_except_def try_except_class_def
  lift_def outcome_def logger_def request_def modify_sheet_def

lemmas sheet_defs = overwrite_with_dataframe_def spreadsheet_worksheet_def worksheet_clear_def
  add_worksheet_def worksheet_update_def is_WorksheetNotFound_def

lemma overwrite_lookup_fault:
  assumes "worksheet_fault w = Some m"
  shows "overwrite_with_dataframe w name df s =
     (Inr False, s\<lparr>calls := calls s @ [GetWorksheet name],
        log := log s @ [(ERROR, ''Failed to write data to sheet '' @ quote name @ '': '' @ m)]\<rparr>)"
  using assms by (simp add: sheet_defs prog_defs)

lemma overwrite_clear_fault:
  assumes "worksheet_fault w = None" "index_of name (map title (sheets s)) = Some i"
    "clear_fault w = Some m"
  shows "overwrite_with_dataframe w name df s =
     (Inr False, s\<lparr>calls := calls s @ [GetWorksheet name, Clear i],
        log := log s @ [(ERROR, ''Failed to write data to sheet '' @ quote name @ '': '' @ m)]\<rparr>)"
  using assms by (simp add: sheet_defs prog_defs)

lemma overwrite_existing:
  assumes "worksheet_fault w = None" "index_of name (map title (sheets s)) = Some i"
    "clear_fault w = None"
  shows "overwrite_with_dataframe w name df s =
     (case update_fault w of
        Some m \<Rightarrow>
          (Inr False,
           s\<lparr>calls := calls s @ [GetWorksheet name, Clear i,
                  Update i ''A1'' (map PStr (columns df) # rows df)],
             sheets := (sheets s)[i := (sheets s ! i)\<lparr>cells := Map.empty\<rparr>],
             log := log s @ [(INFO, ''Sheet '' @ quote name @ '' cleared.''),
                  (ERROR, ''Failed to write data to sheet '' @ quote name @ '': '' @ m)]\<rparr>)
      | None \<Rightarrow>
          (Inr True,
           s\<lparr>calls := calls s @ [GetWorksheet name, Clear i,
                  Update i ''A1'' (map PStr (columns df) # rows df)],
             sheets := (sheets s)[i := (sheets s ! i)
                \<lparr>row_count := max (row_count (sheets s ! i)) (Suc (length (rows df))),
                 col_count := max (col_count (sheets s ! i)) (width (map PStr (columns df) # rows df)),
                 cells := block (map PStr (columns df) # rows df)\<rparr>],
             log := log s @ [(INFO, ''Sheet '' @ quote name @ '' cleared.''),
                  (INFO, ''Data successfully written to sheet '' @ quote name @ ''.'')]\<rparr>))"
  using assms index_of_Some[OF assms(2)]
  by (simp add: sheet_defs prog_defs split: option.splits)

lemma overwrite_add_fault:
  assumes "worksheet_fault w = None" "name \<notin> set (map title (sheets s))"
    "add_worksheet_fault w = Some m"
  shows "overwrite_with_dataframe w name df s =
     (Inr False, s\<lparr>calls := calls s @ [GetWorksheet name,
          AddWorksheet name (str_nat (max 100 (length (rows df) + 1)))
            (str_nat (max 10 (length (columns df) + 1)))],
        log := log s @ [(ERROR, ''Failed to write data to sheet '' @ quote name @ '': '' @ m)]\<rparr>)"
  using assms index_of_None[of name "map title (sheets s)"]
  by (simp add: sheet_defs prog_defs)

lemma overwrite_new:
  assumes "worksheet_fault w = None" "name \<notin> set (map title (sheets s))"
    "add_worksheet_fault w = None"
  shows "overwrite_with_dataframe w name df s =
     (case update_fault w of
        Some m \<Rightarrow>
          (Inr False,
           s\<lparr>calls := calls s @ [GetWorksheet name,
                  AddWorksheet name (str_nat (max 100 (length (rows df) + 1)))
                    (str_nat (max 10 (length (columns df) + 1))),
                  Update (length (sheets s)) ''A1'' (map PStr (columns df) # rows df)],
             sheets := sheets s @
                [\<lparr>title = name, row_count = max 100 (length (rows df) + 1),
                  col_count = max 10 (length (columns df) + 1), cells = Map.empty\<rparr>],
             log := log s @ [(INFO, ''Created new sheet '' @ quote name @ ''.''),
                  (ERROR, ''Failed to write data to sheet '' @ quote name @ '': '' @ m)]\<rparr>)
      | None \<Rightarrow>
          (Inr True,
           s\<lparr>calls := calls s @ [GetWorksheet name,
                  AddWorksheet name (str_nat (max 100 (length (rows df) + 1)))
                    (str_nat (max 10 (length (columns df) + 1))),
                  Update (length (sheets s)) ''A1'' (map PStr (columns df) # rows df)],
             sheets := sheets s @
                [\<lparr>title = name,
                  row_count = max (max 100 (length (rows df) + 1)) (Suc (length (rows df))),
                  col_count = max (max 10 (length (columns df) + 1))
                     (width (map PStr (columns df) # rows df)),
                  cells = block (map PStr (columns df) # rows df)\<rparr>],
             log := log s @ [(INFO, ''Created new sheet '' @ quote name @ ''.''),
                  (INFO, ''Data successfully written to sheet '' @ quote name @ ''.'')]\<rparr>))"
  using assms index_of_None[of name "map title (sheets s)"]
  by (simp add: sheet_defs prog_defs nat_of_str_str_nat split: option.splits)


lemma map_title_update:
  "i < length xs \<Longrightarrow> title y = title (xs ! i) \<Longrightarrow> map title (xs[i := y]) = map title xs"
  by (simp add: list_eq_iff_nth_eq nth_list_update)

lemma block_header:
  "block (h # rs) (0, j) = (if j < length h then Some (h ! j) else None)"
  by (simp add: block_def)

lemma block_row:
  "block (h # rs) (Suc r, j) =
     (if r < length rs \<and> j < length (rs ! r) then Some (rs ! r ! j) else None)"
  by (simp add: block_def)

lemma wf_row_length: "wf_dataframe df \<Longrightarrow> r < length (rows df) \<Longrightarrow> length (rows df ! r) = length (columns df)"
  by (simp add: wf_dataframe_def list_all_length)

lemma width_le: "list_all (\<lambda>r. length r \<le> n) data \<Longrightarrow> width data \<le> n"
  by (induction data) (simp_all add: width_def)

lemma width_sheet_data: "wf_dataframe df \<Longrightarrow> width (map PStr (columns df) # rows df) \<le> length (columns df)"
  by (rule width_le) (simp add: wf_dataframe_def list_all_iff)

lemma overwrite_total:
  "\<exists>s'. overwrite_with_dataframe w name df s =
     (Inr (worksheet_fault w = None \<and>
           (if name \<in> set (map title (sheets s)) then clear_fault w = None
            else add_worksheet_fault w = None) \<and>
           update_fault w = None), s')"
proof (cases "worksheet_fault w")
  case (Some m)
  then show ?thesis by (simp add: overwrite_lookup_fault)
next
  case None
  show ?thesis
  proof (cases "name \<in> set (map title (sheets s))")
    case True
    then obtain i where i: "index_of name (map title (sheets s)) = Some i"
      using index_of_in by fastforce
    show ?thesis
    proof (cases "clear_fault w")
      case (Some m)
      with None i True show ?thesis by (simp add: overwrite_clear_fault)
    next
      case cl: None
      with None i True show ?thesis
        by (cases "update_fault w") (simp_all add: overwrite_existing)
    qed
  next
    case False
    show ?thesis
    proof (cases "add_worksheet_fault w")
      case (Some m)
      with None False show ?thesis by (simp add: overwrite_add_fault)
    next
      case ad: None
      with None False show ?thesis
        by (cases "update_fault w") (simp_all add: overwrite_new)
    qed
  qed
qed

text \<open>
  Claim C2. After a call of \<^verbatim>\<open>overwrite_with_dataframe\<close> that returns \<^verbatim>\<open>True\<close>, the
  worksheet found under the name holds, from the top-left cell, the column labels in
  row 0 and the rows of the table below them, one to one and in order, and every other
  cell is empty: nothing of the earlier content is left, since an existing worksheet
  was cleared and a new one starts empty.
\<close>

theorem overwrite_writes_exactly_the_table:
  assumes wf: "wf_dataframe df"
    and ok: "overwrite_with_dataframe w name df s = (Inr True, s')"
  shows "\<exists>i. index_of name (map title (sheets s')) = Some i \<and> i < length (sheets s') \<and>
      (\<forall>j. cells (sheets s' ! i) (0, j) =
         (if j < length (columns df) then Some (PStr (columns df ! j)) else None)) \<and>
      (\<forall>r j. cells (sheets s' ! i) (Suc r, j) =
         (if r < length (rows df) \<and> j < length (columns df) then Some (rows df ! r ! j)
          else None))"
proof -
  obtain s0 where "overwrite_with_dataframe w name df s =
     (Inr (worksheet_fault w = None \<and>
           (if name \<in> set (map title (sheets s)) then clear_fault w = None
            else add_worksheet_fault w = None) \<and>
           update_fault w = None), s0)"
    using overwrite_total by blast
  with ok have lf: "worksheet_fault w = None" and uf: "update_fault w = None"
    and br: "if name \<in> set (map title (sheets s)) then clear_fault w = None
            else add_worksheet_fault w = None"
    by auto
  have cellrow: "\<And>r j. block (map PStr (columns df) # rows df) (Suc r, j) =
         (if r < length (rows df) \<and> j < length (columns df) then Some (rows df ! r ! j)
          else None)"
    using wf by (auto simp: block_row wf_row_length)
  have cellhd: "\<And>j. block (map PStr (columns df) # rows df) (0, j) =
         (if j < length (columns df) then Some (PStr (columns df ! j)) else None)"
    by (simp add: block_header)
  show ?thesis
  proof (cases "name \<in> set (map title (sheets s))")
    case True
    then obtain i where i: "index_of name (map title (sheets s)) = Some i"
      using index_of_in by fastforce
    from index_of_Some[OF i] have il: "i < length (sheets s)" by simp
    from True br have "clear_fault w = None" by simp
    from overwrite_existing[OF lf i this, of df] uf ok
    have s': "sheets s' = (sheets s)[i := (sheets s ! i)
                \<lparr>row_count := max (row_count (sheets s ! i)) (Suc (length (rows df))),
                 col_count := max (col_count (sheets s ! i)) (width (map PStr (columns df) # rows df)),
                 cells := block (map PStr (columns df) # rows df)\<rparr>]"
      by auto
    have "map title (sheets s') = map title (sheets s)"
      unfolding s' using il by (simp add: map_title_update)
    with i il s' cellrow cellhd show ?thesis
      by (intro exI[of _ i]) simp
  next
    case False
    with br have "add_worksheet_fault w = None" by simp
    from overwrite_new[OF lf False this, of df] uf ok
    have s': "sheets s' = sheets s @
                [\<lparr>title = name,
                  row_count = max (max 100 (length (rows df) + 1)) (Suc (length (rows df))),
                  col_count = max (max 10 (length (columns df) + 1))
                     (width (map PStr (columns df) # rows df)),
                  cells = block (map PStr (columns df) # rows df)\<rparr>]"
      by auto
    have "index_of name (map title (sheets s')) = Some (length (sheets s))"
      unfolding s' using False index_of_append_new[of name "map title (sheets s)"] by simp
    with s' cellrow cellhd show ?thesis
      by (intro exI[of _ "length (sheets s)"]) simp
  qed
qed

text \<open>
  Claim C4. When the lookup finds no worksheet with the name, the next request is
  \<^verbatim>\<open>add_worksheet\<close> with the decimal strings of max(100, R + 1) and max(10, C + 1),
  and when the service accepts it the spreadsheet has one more worksheet, of that
  name, with exactly max(100, R + 1) rows and max(10, C + 1) columns.
\<close>

theorem new_worksheet_size:
  assumes wf: "wf_dataframe df"
    and lf: "worksheet_fault w = None"
    and absent: "name \<notin> set (map title (sheets s))"
    and run: "overwrite_with_dataframe w name df s = (r, s')"
  shows "take 2 (new_calls s s') =
           [GetWorksheet name,
            AddWorksheet name (str_nat (max 100 (length (rows df) + 1)))
              (str_nat (max 10 (length (columns df) + 1)))] \<and>
         (add_worksheet_fault w = None \<longrightarrow>
            (\<exists>ws. sheets s' = sheets s @ [ws] \<and> title ws = name \<and>
               row_count ws = max 100 (length (rows df) + 1) \<and>
               col_count ws = max 10 (length (columns df) + 1)))"
proof (cases "add_worksheet_fault w")
  case (Some m)
  from overwrite_add_fault[OF lf absent Some, of df] run Some show ?thesis
    by (auto simp: new_calls_def)
next
  case None
  have "max (max 10 (length (columns df) + 1)) (width (map PStr (columns df) # rows df))
        = max 10 (length (columns df) + 1)"
    using width_sheet_data[OF wf] by simp
  with overwrite_new[OF lf absent None, of df] run None show ?thesis
    by (cases "update_fault w") (auto simp: new_calls_def)
qed

lemma lookup_apply:
  "spreadsheet_worksheet w name s =
     (case worksheet_fault w of
        Some m \<Rightarrow> (Inl (APIError m), s\<lparr>calls := calls s @ [GetWorksheet name]\<rparr>)
      | None \<Rightarrow>
          (case index_of name (map title (sheets s)) of
             None \<Rightarrow> (Inl (WorksheetNotFound name), s\<lparr>calls := calls s @ [GetWorksheet name]\<rparr>)
           | Some i \<Rightarrow> (Inr i, s\<lparr>calls := calls s @ [GetWorksheet name]\<rparr>)))"
  by (simp add: spreadsheet_worksheet_def prog_defs split: option.splits)

lemma clear_apply:
  "worksheet_clear w i s =
     (case clear_fault w of
        Some m \<Rightarrow> (Inl (APIError m), s\<lparr>calls := calls s @ [Clear i]\<rparr>)
      | None \<Rightarrow> (Inr (), s\<lparr>calls := calls s @ [Clear i],
                    sheets := (sheets s)[i := (sheets s ! i)\<lparr>cells := Map.empty\<rparr>]\<rparr>))"
  by (simp add: worksheet_clear_def prog_defs split: option.splits)

text \<open>
  Claim C9. A worksheet is created exactly when the lookup raised
  \<^verbatim>\<open>WorksheetNotFound\<close>. When the lookup raises another exception, or the lookup
  succeeds and the clear raises an exception, the function returns \<^verbatim>\<open>False\<close>, the
  worksheets are as before, and neither \<^verbatim>\<open>add_worksheet\<close> nor \<^verbatim>\<open>update\<close> is
  requested.
\<close>

theorem only_not_found_creates_worksheet:
  assumes run: "overwrite_with_dataframe w name df s = (r, s')"
  shows "(list_ex is_AddWorksheet (new_calls s s') \<longleftrightarrow>
            (\<exists>t s1. spreadsheet_worksheet w name s = (Inl (WorksheetNotFound t), s1))) \<and>
         ((\<exists>e s1. spreadsheet_worksheet w name s = (Inl e, s1) \<and> \<not> is_WorksheetNotFound e) \<or>
          (\<exists>i s1 e s2. spreadsheet_worksheet w name s = (Inr i, s1) \<and>
                        worksheet_clear w i s1 = (Inl e, s2))
          \<longrightarrow> r = Inr False \<and> sheets s' = sheets s \<and>
              \<not> list_ex is_AddWorksheet (new_calls s s') \<and>
              \<not> list_ex is_Update (new_calls s s'))"
proof (cases "worksheet_fault w")
  case (Some m)
  from overwrite_lookup_fault[OF Some, of name df s] run show ?thesis
    by (auto simp: new_calls_def lookup_apply Some is_AddWorksheet_def is_Update_def)
next
  case None
  show ?thesis
  proof (cases "index_of name (map title (sheets s))")
    case nf: None
    then have absent: "name \<notin> set (map title (sheets s))" by (simp add: index_of_None)
    show ?thesis
    proof (cases "add_worksheet_fault w")
      case (Some m)
      from overwrite_add_fault[OF None absent Some, of df] run show ?thesis
        by (auto simp: new_calls_def lookup_apply None nf is_AddWorksheet_def is_WorksheetNotFound_def)
    next
      case ad: None
      from overwrite_new[OF None absent ad, of df] run show ?thesis
        by (cases "update_fault w")
           (auto simp: new_calls_def lookup_apply None nf is_AddWorksheet_def is_WorksheetNotFound_def)
    qed
  next
    case (Some i)
    show ?thesis
    proof (cases "clear_fault w")
      case cf: (Some m)
      from overwrite_clear_fault[OF None Some cf, of df] run show ?thesis
        by (auto simp: new_calls_def lookup_apply clear_apply None Some cf is_AddWorksheet_def is_Update_def)
    next
      case cl: None
      from overwrite_existing[OF None Some cl, of df] run show ?thesis
        by (cases "update_fault w")
           (auto simp: new_calls_def lookup_apply clear_apply None Some cl is_AddWorksheet_def)
    qed
  qed
qed

section \<open>The sheet writer on the examples\<close>

lemma example_overwrite_existing:
  "overwrite_with_dataframe example_world ''Report'' example_table (init [old_report]) =
     (Inr True,
      \<lparr>log = [(INFO, ''Sheet '' @ quote ''Report'' @ '' cleared.''),
              (INFO, ''Data successfully written to sheet '' @ quote ''Report'' @ ''.'')],
       calls = [GetWorksheet ''Report'', Clear 0,
                Update 0 ''A1'' (map PStr (columns example_table) # rows example_table)],
       sheets = [old_report
          \<lparr>row_count := 5, col_count := 5,
           cells := block (map PStr (columns example_table) # rows example_table)\<rparr>]\<rparr>)"
proof -
  have "overwrite_with_dataframe example_world ''Report'' example_table (init [old_report]) =
     (case update_fault example_world of
        Some m \<Rightarrow>
          (Inr False,
           (init [old_report])\<lparr>calls := calls (init [old_report]) @ [GetWorksheet ''Report'', Clear 0,
                  Update 0 ''A1'' (map PStr (columns example_table) # rows example_table)],
             sheets := (sheets (init [old_report]))[0 := (sheets (init [old_report]) ! 0)\<lparr>cells := Map.empty\<rparr>],
             log := log (init [old_report]) @ [(INFO, ''Sheet '' @ quote ''Report'' @ '' cleared.''),
                  (ERROR, ''Failed to write data to sheet '' @ quote ''Report'' @ '': '' @ m)]\<rparr>)
      | None \<Rightarrow>
          (Inr True,
           (init [old_report])\<lparr>calls := calls (init [old_report]) @ [GetWorksheet ''Report'', Clear 0,
                  Update 0 ''A1'' (map PStr (columns example_table) # rows example_table)],
             sheets := (sheets (init [old_report]))[0 := (sheets (init [old_report]) ! 0)
                \<lparr>row_count := max (row_count (sheets (init [old_report]) ! 0)) (Suc (length (rows example_table))),
                 col_count := max (col_count (sheets (init [old_report]) ! 0))
                    (width (map PStr (columns example_table) # rows example_table)),
                 cells := block (map PStr (columns example_table) # rows example_table)\<rparr>],
             log := log (init [old_report]) @ [(INFO, ''Sheet '' @ quote ''Report'' @ '' cleared.''),
                  (INFO, ''Data successfully written to sheet '' @ quote ''Report'' @ ''.'')]\<rparr>))"
    by (rule overwrite_existing)
       (simp_all add: example_world_def init_def old_report_def)
  then show ?thesis
    by (simp add: example_world_def init_def old_report_def example_table_def width_def)
qed

theorem overwrite_writes_exactly_the_table_witness:
  "wf_dataframe example_table \<and>
   fst (overwrite_with_dataframe example_world ''Report'' example_table (init [old_report])) =
     Inr True \<and>
   cells (sheets (snd (overwrite_with_dataframe example_world ''Report'' example_table
                         (init [old_report]))) ! 0) (0, 1) = Some (PStr ''amount'') \<and>
   cells (sheets (snd (overwrite_with_dataframe example_world ''Report'' example_table
                         (init [old_report]))) ! 0) (2, 1) = Some (PInt 20) \<and>
   cells (sheets (snd (overwrite_with_dataframe example_world ''Report'' example_table
                         (init [old_report]))) ! 0) (7, 7) = None"
proof -
  let ?s' = "snd (overwrite_with_dataframe example_world ''Report'' example_table
                    (init [old_report]))"
  have wf: "wf_dataframe example_table"
    by (simp add: example_table_def wf_dataframe_def)
  have run: "overwrite_with_dataframe example_world ''Report'' example_table (init [old_report])
             = (Inr True, ?s')"
    by (simp add: example_overwrite_existing)
  from overwrite_writes_exactly_the_table[OF wf run]
  obtain i where i: "index_of ''Report'' (map title (sheets ?s')) = Some i"
    and hd: "\<And>j. cells (sheets ?s' ! i) (0, j) =
         (if j < length (columns example_table) then Some (PStr (columns example_table ! j))
          else None)"
    and rw: "\<And>r j. cells (sheets ?s' ! i) (Suc r, j) =
         (if r < length (rows example_table) \<and> j < length (columns example_table)
          then Some (rows example_table ! r ! j) else None)"
    by blast
  from i have i0: "i = 0"
    unfolding example_overwrite_existing by (simp add: old_report_def split: if_splits)
  have res: "fst (overwrite_with_dataframe example_world ''Report'' example_table
                    (init [old_report])) = Inr True"
    by (simp add: example_overwrite_existing)
  from hd[of 1] rw[of 1 1] rw[of 6 7] wf res show ?thesis
    unfolding i0 by (simp add: example_table_def numeral_2_eq_2)
qed

theorem new_worksheet_size_witness:
  "wf_dataframe example_table \<and> worksheet_fault example_world = None \<and>
   ''Report'' \<notin> set (map title (sheets (init []))) \<and>
   add_worksheet_fault example_world = None \<and>
   take 2 (new_calls (init [])
             (snd (overwrite_with_dataframe example_world ''Report'' example_table (init [])))) =
     [GetWorksheet ''Report'', AddWorksheet ''Report'' ''100'' ''10''] \<and>
   (\<exists>ws. sheets (snd (overwrite_with_dataframe example_world ''Report'' example_table (init [])))
            = [ws] \<and> title ws = ''Report'' \<and> row_count ws = 100 \<and> col_count ws = 10)"
proof -
  have wf: "wf_dataframe example_table"
    by (simp add: example_table_def wf_dataframe_def)
  have lf: "worksheet_fault example_world = None" and af: "add_worksheet_fault example_world = None"
    by (simp_all add: example_world_def)
  have ab: "''Report'' \<notin> set (map title (sheets (init [])))"
    by (simp add: init_def)
  have s100: "str_nat 100 = ''100''" and s10: "str_nat 10 = ''10''"
    by code_simp+
  from new_worksheet_size[OF wf lf ab surjective_pairing] af lf s100 s10 wf ab show ?thesis
    by (simp add: example_table_def init_def)
qed

theorem only_not_found_creates_worksheet_witness:
  "spreadsheet_worksheet (example_world\<lparr>clear_fault := Some ''quota''\<rparr>) ''Report''
     (init [old_report]) =
     (Inr 0, (init [old_report])\<lparr>calls := [GetWorksheet ''Report'']\<rparr>) \<and>
   worksheet_clear (example_world\<lparr>clear_fault := Some ''quota''\<rparr>) 0
     ((init [old_report])\<lparr>calls := [GetWorksheet ''Report'']\<rparr>) =
     (Inl (APIError ''quota''),
      (init [old_report])\<lparr>calls := [GetWorksheet ''Report'', Clear 0]\<rparr>) \<and>
   fst (overwrite_with_dataframe (example_world\<lparr>clear_fault := Some ''quota''\<rparr>) ''Report''
          example_table (init [old_report])) = Inr False \<and>
   sheets (snd (overwrite_with_dataframe (example_world\<lparr>clear_fault := Some ''quota''\<rparr>)
                  ''Report'' example_table (init [old_report]))) = [old_report]"
proof -
  let ?w = "example_world\<lparr>clear_fault := Some ''quota''\<rparr>"
  have lk: "spreadsheet_worksheet ?w ''Report'' (init [old_report]) =
     (Inr 0, (init [old_report])\<lparr>calls := [GetWorksheet ''Report'']\<rparr>)"
    by (simp add: lookup_apply example_world_def init_def old_report_def)
  have cl: "worksheet_clear ?w 0 ((init [old_report])\<lparr>calls := [GetWorksheet ''Report'']\<rparr>) =
     (Inl (APIError ''quota''),
      (init [old_report])\<lparr>calls := [GetWorksheet ''Report'', Clear 0]\<rparr>)"
    by (simp add: clear_apply example_world_def init_def)
  have run: "overwrite_with_dataframe ?w ''Report'' example_table (init [old_report]) =
     (fst (overwrite_with_dataframe ?w ''Report'' example_table (init [old_report])),
      snd (overwrite_with_dataframe ?w ''Report'' example_table (init [old_report])))"
    by simp
  have raised: "(\<exists>e s1. spreadsheet_worksheet ?w ''Report'' (init [old_report]) = (Inl e, s1) \<and>
                    \<not> is_WorksheetNotFound e) \<or>
     (\<exists>i s1 e s2. spreadsheet_worksheet ?w ''Report'' (init [old_report]) = (Inr i, s1) \<and>
                    worksheet_clear ?w i s1 = (Inl e, s2))"
    using lk cl by blast
  from only_not_found_creates_worksheet[OF run] raised
  have "fst (overwrite_with_dataframe ?w ''Report'' example_table (init [old_report])) = Inr False \<and>
        sheets (snd (overwrite_with_dataframe ?w ''Report'' example_table (init [old_report]))) =
          sheets (init [old_report])"
    by blast
  with lk cl show ?thesis
    by (simp add: init_def)
qed

section \<open>The orchestrator\<close>

lemma overwrite_summary:
  "\<exists>s' cs ls. overwrite_with_dataframe w name df s = (Inr (sheet_requests_succeed w name s), s') \<and>
     calls s' = calls s @ GetWorksheet name # cs \<and> log s' = log s @ ls"
proof (cases "worksheet_fault w")
  case (Some m)
  then show ?thesis by (simp add: overwrite_lookup_fault sheet_requests_succeed_def)
next
  case None
  show ?thesis
  proof (cases "name \<in> set (map title (sheets s))")
    case True
    then obtain i where i: "index_of name (map title (sheets s)) = Some i"
      using index_of_in by fastforce
    show ?thesis
    proof (cases "clear_fault w")
      case (Some m)
      with None i True show ?thesis
        by (simp add: overwrite_clear_fault sheet_requests_succeed_def)
    next
      case cl: None
      with None i True show ?thesis
        by (cases "update_fault w") (simp_all add: overwrite_existing sheet_requests_succeed_def)
    qed
  next
    case False
    show ?thesis
    proof (cases "add_worksheet_fault w")
      case (Some m)
      with None False show ?thesis
        by (simp add: overwrite_add_fault sheet_requests_succeed_def)
    next
      case ad: None
      with None False show ?thesis
        by (cases "update_fault w") (simp_all add: overwrite_new sheet_requests_succeed_def)
    qed
  qed
qed

lemma push_to_sheets_apply:
  "push_to_sheets w c df s =
     (case c ''GOOGLE_KEYFILE_PATH'' of
        None \<Rightarrow> (Inl (KeyError ''GOOGLE_KEYFILE_PATH''), s)
      | Some kf \<Rightarrow>
       (case GoogleSheetsClient_init w kf s of
          (Inl e, s1) \<Rightarrow> (Inl e, s1)
        | (Inr u, s1) \<Rightarrow>
          (case c ''SPREADSHEET_URL'' of
             None \<Rightarrow> (Inl (KeyError ''SPREADSHEET_URL''), s1)
           | Some url \<Rightarrow>
             (case get_spreadsheet_by_url w url s1 of
                (Inl e, s2) \<Rightarrow> (Inl e, s2)
              | (Inr u, s2) \<Rightarrow>
                (case c ''SHEET_NAME'' of
                   None \<Rightarrow> (Inl (KeyError ''SHEET_NAME''), s2)
                 | Some name \<Rightarrow>
                   (case overwrite_with_dataframe w name df s2 of
                      (Inl e, s3) \<Rightarrow> (Inl e, s3)
                    | (Inr success, s3) \<Rightarrow>
                        (Inr (), s3\<lparr>log := log s3 @ [push_message success]\<rparr>)))))))"
  by (simp add: push_to_sheets_def bind_def getitem_apply logger_def push_message_def
      split: option.splits sum.splits prod.splits)

text \<open>What the spreadsheet phase adds to the requests, and how it ends once it reaches the writer.\<close>

lemma push_to_sheets_summary:
  assumes "push_to_sheets w c df s = (r, s')"
  shows "\<exists>cs. calls s' = calls s @ cs \<and>
           ((\<exists>t. GetWorksheet t \<in> set cs) \<longrightarrow>
              r = Inr () \<and>
              (\<exists>name. c ''SHEET_NAME'' = Some name \<and>
                 last (log s') = push_message (sheet_requests_succeed w name s)))"
proof -
  have ov: "\<And>name s2. sheets s2 = sheets s \<Longrightarrow>
     \<exists>s3 cs. overwrite_with_dataframe w name df s2 = (Inr (sheet_requests_succeed w name s), s3) \<and>
       calls s3 = calls s2 @ GetWorksheet name # cs"
  proof -
    fix name and s2 :: st assume "sheets s2 = sheets s"
    then have "sheet_requests_succeed w name s2 = sheet_requests_succeed w name s"
      by (simp add: sheet_requests_succeed_def)
    with overwrite_summary[of w name df s2] show "\<exists>s3 cs. overwrite_with_dataframe w name df s2 = (Inr (sheet_requests_succeed w name s), s3) \<and>
       calls s3 = calls s2 @ GetWorksheet name # cs" by auto
  qed
  show ?thesis
  proof (cases "c ''GOOGLE_KEYFILE_PATH''")
    case None
    with assms show ?thesis by (simp add: push_to_sheets_apply)
  next
    case (Some kf)
    note kf = this
    show ?thesis
    proof (cases "keyfile_result w kf = None \<and> authorize_result w = None")
      case False
      with assms kf show ?thesis
        by (auto simp: push_to_sheets_apply GoogleSheetsClient_init_apply split: option.splits)
    next
      case True
      note auth = this
      show ?thesis
      proof (cases "c ''SPREADSHEET_URL''")
        case None
        with assms kf auth show ?thesis
          by (auto simp: push_to_sheets_apply GoogleSheetsClient_init_apply)
      next
        case (Some url)
        note url = this
        show ?thesis
        proof (cases "open_by_url_result w")
          case (Some e)
          with assms kf auth url show ?thesis
            by (auto simp: push_to_sheets_apply GoogleSheetsClient_init_apply
                get_spreadsheet_by_url_apply)
        next
          case None
          note op = this
          show ?thesis
          proof (cases "c ''SHEET_NAME''")
            case None
            with assms kf auth url op show ?thesis
              by (auto simp: push_to_sheets_apply GoogleSheetsClient_init_apply
                  get_spreadsheet_by_url_apply)
          next
            case (Some name)
            let ?s2 = "s\<lparr>calls := calls s @ [Authorize],
                  log := log s @ [(INFO, ''Google Sheets authorization successful'')],
                  calls := calls s @ [Authorize] @ [OpenByUrl url],
                  log := (log s @ [(INFO, ''Google Sheets authorization successful'')]) @
                         [(INFO, ''Opened Google Spreadsheet: '' @ url)]\<rparr>"
            from ov[of ?s2 name] obtain s3 cs where
              s3: "overwrite_with_dataframe w name df ?s2 =
                     (Inr (sheet_requests_succeed w name s), s3)"
              and c3: "calls s3 = calls ?s2 @ GetWorksheet name # cs" by auto
            from assms kf auth url op Some s3 c3 show ?thesis
              by (auto simp: push_to_sheets_apply GoogleSheetsClient_init_apply
                  get_spreadsheet_by_url_apply)
          qed
        qed
      qed
    qed
  qed
qed


lemma main_apply:
  "main w s =
     (case load_config w ''config.json'' s of
        (Inl e, s1) \<Rightarrow> (Inl e, s1)
      | (Inr config, s1) \<Rightarrow>
        (case text_file w ''query.sql'' of
           Inl e \<Rightarrow> (Inl e, s1)
         | Inr query \<Rightarrow>
           (case config ''RSA_KEY_PATH'' of
              None \<Rightarrow> (Inl (KeyError ''RSA_KEY_PATH''), s1)
            | Some p \<Rightarrow>
              (case load_private_key_base64 w p s1 of
                 (Inl e, s2) \<Rightarrow> (Inl e, s2)
               | (Inr pk, s2) \<Rightarrow>
                 (case SnowflakeClient_init w config pk s2 of
                    (Inl e, s3) \<Rightarrow> (Inl e, s3)
                  | (Inr db, s3) \<Rightarrow>
                    (case fetch_and_stamp w db query s3 of
                       (Inl e, s4) \<Rightarrow> (Inl e, s4)
                     | (Inr df, s4) \<Rightarrow> push_to_sheets w config df s4))))))"
  by (simp add: main_phases bind_def load_query_apply getitem_apply
      split: option.splits sum.splits prod.splits)

lemmas main_simps = main_apply load_config_apply load_private_key_base64_apply
  SnowflakeClient_init_apply init_failed_def fetch_and_stamp_apply init_def

lemma overwrite_failure_logged:
  assumes "overwrite_with_dataframe w name df s = (r, s')"
    and "\<not> sheet_requests_succeed w name s"
  shows "r = Inr False \<and>
         (\<exists>m. last (log s') =
            (ERROR, ''Failed to write data to sheet '' @ quote name @ '': '' @ m))"
proof (cases "worksheet_fault w")
  case (Some m)
  with assms show ?thesis by (auto simp: overwrite_lookup_fault)
next
  case None
  show ?thesis
  proof (cases "name \<in> set (map title (sheets s))")
    case True
    then obtain i where i: "index_of name (map title (sheets s)) = Some i"
      using index_of_in by fastforce
    show ?thesis
    proof (cases "clear_fault w")
      case (Some m)
      with None i True assms show ?thesis
        by (auto simp: overwrite_clear_fault)
    next
      case cl: None
      with None i True assms show ?thesis
        by (cases "update_fault w") (auto simp: overwrite_existing sheet_requests_succeed_def)
    qed
  next
    case False
    show ?thesis
    proof (cases "add_worksheet_fault w")
      case (Some m)
      with None False assms show ?thesis
        by (auto simp: overwrite_add_fault)
    next
      case ad: None
      with None False assms show ?thesis
        by (cases "update_fault w") (auto simp: overwrite_new sheet_requests_succeed_def)
    qed
  qed
qed

lemma main_reaches_writer:
  assumes run: "main w (init shs) = (r, fin)" and gw: "GetWorksheet t \<in> set (calls fin)"
  shows "r = Inr () \<and>
     (\<exists>c name. json_file w ''config.json'' = Inr c \<and> c ''SHEET_NAME'' = Some name \<and>
        last (log fin) =
          (if sheet_requests_succeed w name (init shs)
           then (INFO, ''Data successfully pushed to Google Sheets.'')
           else (WARNING, ''Data push to Google Sheets failed.'')))"
  using run gw
  by (auto simp: main_simps sheet_requests_succeed_def push_message_def
      split: sum.splits option.splits dest!: push_to_sheets_summary)

text \<open>
  Claim C3. \<^verbatim>\<open>overwrite_with_dataframe\<close> never propagates an exception: from every
  state and in every world it returns a Boolean, \<^verbatim>\<open>True\<close> when every request of the
  locate/clear/create/write sequence succeeds and \<^verbatim>\<open>False\<close> when one of them raises,
  and in that case its last log line is the error. Whenever a run of \<^verbatim>\<open>main\<close> reaches
  the sheet writer, \<^verbatim>\<open>main\<close> returns normally, and its last log line is the success
  message when the write succeeded and the warning when it failed.
\<close>

theorem sheet_write_failure_is_a_status:
  "(\<exists>s'. overwrite_with_dataframe w name df s = (Inr (sheet_requests_succeed w name s), s') \<and>
      (\<not> sheet_requests_succeed w name s \<longrightarrow>
         (\<exists>m. last (log s') =
            (ERROR, ''Failed to write data to sheet '' @ quote name @ '': '' @ m)))) \<and>
   (\<forall>r fin t. main w (init shs) = (r, fin) \<longrightarrow> GetWorksheet t \<in> set (calls fin) \<longrightarrow>
      r = Inr () \<and>
      (\<exists>c sheet_name. json_file w ''config.json'' = Inr c \<and> c ''SHEET_NAME'' = Some sheet_name \<and>
         last (log fin) =
           (if sheet_requests_succeed w sheet_name (init shs)
            then (INFO, ''Data successfully pushed to Google Sheets.'')
            else (WARNING, ''Data push to Google Sheets failed.''))))"
proof -
  obtain s' where s': "overwrite_with_dataframe w name df s =
      (Inr (sheet_requests_succeed w name s), s')"
    using overwrite_summary[of w name df s] by blast
  from overwrite_failure_logged[OF s'] s' main_reaches_writer[of w shs]
  show ?thesis by blast
qed

lemma str_nat_100: "str_nat 100 = ''100''" by code_simp
lemma str_nat_10: "str_nat 10 = ''10''" by code_simp

text \<open>
  The end-to-end scenario: the sheet \<^verbatim>\<open>Report\<close> does not exist, the query returns the
  columns \<^verbatim>\<open>id\<close> and \<^verbatim>\<open>amount\<close> with the rows (1, 10) and (2, 20), and the run is
  on 2024-01-01.
\<close>

lemma end_to_end_example:
  "main example_world (init []) =
     (Inr (),
      \<lparr>log = [(INFO, ''Loaded config.json successfully.''),
              (INFO, ''Private key loaded successfully''),
              (INFO, ''Snowflake connection established.''),
              (INFO, ''Fetching data from Snowflake...''),
              (INFO, ''Closing Snowflake connection.''),
              (INFO, ''Google Sheets authorization successful''),
              (INFO, ''Opened Google Spreadsheet: https://sheets/1''),
              (INFO, ''Created new sheet '' @ quote ''Report'' @ ''.''),
              (INFO, ''Data successfully written to sheet '' @ quote ''Report'' @ ''.''),
              (INFO, ''Data successfully pushed to Google Sheets.'')],
       calls = [EngineConnect, Execute ''USE WAREHOUSE WH;'',
                ReadSql ''select id, amount from t'', ConnectionClose, Authorize,
                OpenByUrl ''https://sheets/1'', GetWorksheet ''Report'',
                AddWorksheet ''Report'' ''100'' ''10'',
                Update 0 ''A1''
                  [[PStr ''id'', PStr ''amount'', PStr ''update_date''],
                   [PInt 1, PInt 10, PStr ''2024-01-01''],
                   [PInt 2, PInt 20, PStr ''2024-01-01'']]],
       sheets = [\<lparr>title = ''Report'', row_count = 100, col_count = 10,
                  cells = block [[PStr ''id'', PStr ''amount'', PStr ''update_date''],
                                 [PInt 1, PInt 10, PStr ''2024-01-01''],
                                 [PInt 2, PInt 20, PStr ''2024-01-01'']]\<rparr>]\<rparr>)"
  by (simp add: main_simps close_log_def push_to_sheets_apply GoogleSheetsClient_init_apply
      get_spreadsheet_by_url_apply overwrite_new push_message_def
      example_world_def example_config_def example_table_def setitem_def isoformat_example
      str_nat_100 str_nat_10 width_def)

lemma run_update_fails:
  "main world_update_fails (init []) =
     (Inr (),
      \<lparr>log = [(INFO, ''Loaded config.json successfully.''),
              (INFO, ''Private key loaded successfully''),
              (INFO, ''Snowflake connection established.''),
              (INFO, ''Fetching data from Snowflake...''),
              (INFO, ''Closing Snowflake connection.''),
              (INFO, ''Google Sheets authorization successful''),
              (INFO, ''Opened Google Spreadsheet: https://sheets/1''),
              (INFO, ''Created new sheet '' @ quote ''Report'' @ ''.''),
              (ERROR, ''Failed to write data to sheet '' @ quote ''Report'' @ '': quota exceeded''),
              (WARNING, ''Data push to Google Sheets failed.'')],
       calls = [EngineConnect, Execute ''USE WAREHOUSE WH;'',
                ReadSql ''select id, amount from t'', ConnectionClose, Authorize,
                OpenByUrl ''https://sheets/1'', GetWorksheet ''Report'',
                AddWorksheet ''Report'' ''100'' ''10'',
                Update 0 ''A1''
                  [[PStr ''id'', PStr ''amount'', PStr ''update_date''],
                   [PInt 1, PInt 10, PStr ''2024-01-01''],
                   [PInt 2, PInt 20, PStr ''2024-01-01'']]],
       sheets = [\<lparr>title = ''Report'', row_count = 100, col_count = 10, cells = Map.empty\<rparr>]\<rparr>)"
  by (simp add: main_simps close_log_def push_to_sheets_apply GoogleSheetsClient_init_apply
      get_spreadsheet_by_url_apply overwrite_new push_message_def world_update_fails_def
      example_world_def example_config_def example_table_def setitem_def isoformat_example
      str_nat_100 str_nat_10)

theorem sheet_write_failure_is_a_status_witness:
  "main world_update_fails (init []) = (Inr (), snd (main world_update_fails (init []))) \<and>
   GetWorksheet ''Report'' \<in> set (calls (snd (main world_update_fails (init [])))) \<and>
   \<not> sheet_requests_succeed world_update_fails ''Report'' (init []) \<and>
   fst (overwrite_with_dataframe world_update_fails ''Report'' example_table (init [])) = Inr False \<and>
   last (log (snd (main world_update_fails (init [])))) =
     (WARNING, ''Data push to Google Sheets failed.'')"
proof -
  let ?fin = "snd (main world_update_fails (init []))"
  have run: "main world_update_fails (init []) = (Inr (), ?fin)"
    by (simp add: run_update_fails)
  have gw: "GetWorksheet ''Report'' \<in> set (calls ?fin)"
    by (simp add: run_update_fails)
  have nf: "\<not> sheet_requests_succeed world_update_fails ''Report'' (init [])"
    by (simp add: sheet_requests_succeed_def world_update_fails_def example_world_def)
  have cfg: "json_file world_update_fails ''config.json'' = Inr example_config"
    "example_config ''SHEET_NAME'' = Some ''Report''"
    by (simp_all add: world_update_fails_def example_world_def example_config_def)
  note inst = sheet_write_failure_is_a_status[of world_update_fails "''Report''" example_table "init []" "[]"]
  from inst[THEN conjunct1] obtain s' where
    "overwrite_with_dataframe world_update_fails ''Report'' example_table (init []) =
       (Inr (sheet_requests_succeed world_update_fails ''Report'' (init [])), s')"
    by blast
  with nf have ov: "fst (overwrite_with_dataframe world_update_fails ''Report'' example_table
                           (init [])) = Inr False"
    by simp
  from inst[THEN conjunct2, rule_format, OF run gw] obtain c sheet_name where
    c: "json_file world_update_fails ''config.json'' = Inr c"
    and sn: "c ''SHEET_NAME'' = Some sheet_name"
    and lg: "last (log ?fin) =
              (if sheet_requests_succeed world_update_fails sheet_name (init [])
               then (INFO, ''Data successfully pushed to Google Sheets.'')
               else (WARNING, ''Data push to Google Sheets failed.''))"
    by blast
  from c sn cfg have "sheet_name = ''Report''" by simp
  with lg nf have "last (log ?fin) = (WARNING, ''Data push to Google Sheets failed.'')"
    by simp
  with run gw nf ov show ?thesis by blast
qed

text \<open>
  Claim C5. In every run of \<^verbatim>\<open>main\<close> that has logged
  \<^verbatim>\<open>Snowflake connection established.\<close> (the constructor of the client returned),
  the requests start with connect, select warehouse, fetch, close, in that order. When
  the fetch raises, \<^verbatim>\<open>main\<close> ends with that exception and the close is still the last
  request. \<^verbatim>\<open>close\<close> itself never raises: when closing the connection fails, the
  failure is the last line it logs and the call returns normally.
\<close>

theorem connection_closed_on_every_path:
  assumes run: "main w (init shs) = (r, s')"
    and est: "(INFO, ''Snowflake connection established.'') \<in> set (log s')"
  shows "(\<exists>wh q rest. calls s' = EngineConnect # Execute wh # ReadSql q # ConnectionClose # rest) \<and>
         (\<forall>e. read_sql_result w = Inl e \<longrightarrow> r = Inl e \<and> last (calls s') = ConnectionClose) \<and>
         (\<forall>db s. fst (close w db s) = Inr ()) \<and>
         (\<forall>db s e. close_result w = Some e \<longrightarrow>
            last (log (snd (close w db s))) =
              (ERROR, ''Error closing Snowflake connection: '' @ str_exn e))"
proof -
  have cl: "(\<forall>db s. fst (close w db s) = Inr ()) \<and>
         (\<forall>db s e. close_result w = Some e \<longrightarrow>
            last (log (snd (close w db s))) =
              (ERROR, ''Error closing Snowflake connection: '' @ str_exn e))"
    by (simp add: close_apply close_log_def)
  have "(\<exists>wh q rest. calls s' = EngineConnect # Execute wh # ReadSql q # ConnectionClose # rest) \<and>
         (\<forall>e. read_sql_result w = Inl e \<longrightarrow> r = Inl e \<and> last (calls s') = ConnectionClose)"
    using run est
    by (auto simp: main_simps close_log_def split: sum.splits option.splits
        dest!: push_to_sheets_summary)
  with cl show ?thesis by blast
qed

lemma run_fetch_fails:
  "main world_fetch_fails (init []) =
     (Inl (DatabaseError ''syntax error''),
      \<lparr>log = [(INFO, ''Loaded config.json successfully.''),
              (INFO, ''Private key loaded successfully''),
              (INFO, ''Snowflake connection established.''),
              (INFO, ''Fetching data from Snowflake...''),
              (ERROR, ''Error fetching data: syntax error''),
              (INFO, ''Closing Snowflake connection.''),
              (ERROR, ''Error closing Snowflake connection: connection lost'')],
       calls = [EngineConnect, Execute ''USE WAREHOUSE WH;'',
                ReadSql ''select id, amount from t'', ConnectionClose],
       sheets = []\<rparr>)"
  by (simp add: main_simps close_log_def world_fetch_fails_def example_world_def
      example_config_def)

theorem connection_closed_on_every_path_witness:
  "(INFO, ''Snowflake connection established.'')
     \<in> set (log (snd (main world_fetch_fails (init [])))) \<and>
   read_sql_result world_fetch_fails = Inl (DatabaseError ''syntax error'') \<and>
   close_result world_fetch_fails = Some (DatabaseError ''connection lost'') \<and>
   fst (main world_fetch_fails (init [])) = Inl (DatabaseError ''syntax error'') \<and>
   last (calls (snd (main world_fetch_fails (init [])))) = ConnectionClose \<and>
   fst (close world_fetch_fails example_db (init [])) = Inr () \<and>
   last (log (snd (close world_fetch_fails example_db (init [])))) =
     (ERROR, ''Error closing Snowflake connection: connection lost'')"
proof -
  let ?fin = "snd (main world_fetch_fails (init []))"
  have run: "main world_fetch_fails (init []) = (fst (main world_fetch_fails (init [])), ?fin)"
    by simp
  have est: "(INFO, ''Snowflake connection established.'') \<in> set (log ?fin)"
    by (simp add: run_fetch_fails)
  have rs: "read_sql_result world_fetch_fails = Inl (DatabaseError ''syntax error'')"
    and cr: "close_result world_fetch_fails = Some (DatabaseError ''connection lost'')"
    by (simp_all add: world_fetch_fails_def example_world_def)
  note inst = connection_closed_on_every_path[OF run est]
  from inst rs have a: "fst (main world_fetch_fails (init [])) = Inl (DatabaseError ''syntax error'')"
    "last (calls ?fin) = ConnectionClose" by blast+
  from inst cr have b: "fst (close world_fetch_fails example_db (init [])) = Inr ()"
    "last (log (snd (close world_fetch_fails example_db (init [])))) =
       (ERROR, ''Error closing Snowflake connection: '' @ str_exn (DatabaseError ''connection lost''))"
    by blast+
  from est rs cr a b show ?thesis by simp
qed

text \<open>
  Before that line is logged the constructor has not returned and \<^verbatim>\<open>main\<close> holds no
  client: when the connect or the selection of the warehouse fails, \<^verbatim>\<open>main\<close> ends
  with an exception, the line is absent and no close is requested.
\<close>

lemma no_close_before_established:
  assumes cfg: "json_file w ''config.json'' = Inr c"
    and run: "main w (init shs) = (r, s')"
    and fails: "connect_result w = Some e \<or> execute_result w = Some e"
  shows "(INFO, ''Snowflake connection established.'') \<notin> set (log s') \<and>
         ConnectionClose \<notin> set (calls s') \<and> (\<exists>e'. r = Inl e')"
  using cfg run fails
  by (auto simp: main_simps split: sum.splits option.splits)

text \<open>
  Claim C6, as amended. For any configuration mapping that lacks the RSA key path or
  one of the five warehouse settings (user, account, warehouse, database, schema), the
  run ends with an exception and has sent no request.
\<close>

theorem missing_warehouse_setting_fails_before_any_request:
  assumes cfg: "json_file w ''config.json'' = Inr c"
    and k: "k \<in> set required_before_connect" and miss: "c k = None"
  shows "(\<exists>e. fst (main w (init shs)) = Inl e) \<and> calls (snd (main w (init shs))) = []"
proof -
  have "isl (fst (main w (init shs))) \<and> calls (snd (main w (init shs))) = []"
    using k miss cfg unfolding required_before_connect_def
    by (auto simp: main_simps split: sum.splits option.splits)
  then show ?thesis by (cases "fst (main w (init shs))") auto
qed

lemma run_missing_schema:
  "main (world_missing ''SNOWFLAKE_SCHEMA'') (init []) =
     (Inl (KeyError ''SNOWFLAKE_SCHEMA''),
      \<lparr>log = [(INFO, ''Loaded config.json successfully.''),
              (INFO, ''Private key loaded successfully''),
              (ERROR, ''Error initializing Snowflake: '' @ quote ''SNOWFLAKE_SCHEMA'')],
       calls = [], sheets = []\<rparr>)"
  by (simp add: main_simps world_missing_def example_world_def example_config_def quote_def)

theorem missing_warehouse_setting_fails_before_any_request_witness:
  "json_file (world_missing ''SNOWFLAKE_SCHEMA'') ''config.json'' =
     Inr (example_config(''SNOWFLAKE_SCHEMA'' := None)) \<and>
   ''SNOWFLAKE_SCHEMA'' \<in> set required_before_connect \<and>
   (example_config(''SNOWFLAKE_SCHEMA'' := None)) ''SNOWFLAKE_SCHEMA'' = None \<and>
   fst (main (world_missing ''SNOWFLAKE_SCHEMA'') (init [])) = Inl (KeyError ''SNOWFLAKE_SCHEMA'') \<and>
   calls (snd (main (world_missing ''SNOWFLAKE_SCHEMA'') (init []))) = []"
proof -
  have h: "json_file (world_missing ''SNOWFLAKE_SCHEMA'') ''config.json'' =
     Inr (example_config(''SNOWFLAKE_SCHEMA'' := None))"
    "''SNOWFLAKE_SCHEMA'' \<in> set required_before_connect"
    "(example_config(''SNOWFLAKE_SCHEMA'' := None)) ''SNOWFLAKE_SCHEMA'' = None"
    by (simp_all add: world_missing_def required_before_connect_def)
  from missing_warehouse_setting_fails_before_any_request[OF h, of "[]"] have "calls (snd (main (world_missing ''SNOWFLAKE_SCHEMA'') (init []))) = []"
    by blast
  with h run_missing_schema show ?thesis by simp
qed

text \<open>
  Claim C6 as stated fails for the three settings of the spreadsheet: \<^verbatim>\<open>main\<close> reads
  them only after the warehouse phase, so with the sheet name, the spreadsheet URL or
  the keyfile path missing, and every earlier step succeeding, the run ends with the
  \<^verbatim>\<open>KeyError\<close> after it has sent the requests to the warehouse.
\<close>

theorem missing_sheet_setting_fails_after_requests_counterexample:
  "(example_config(''SHEET_NAME'' := None)) ''SHEET_NAME'' = None \<and>
   fst (main (world_missing ''SHEET_NAME'') (init [])) = Inl (KeyError ''SHEET_NAME'') \<and>
   calls (snd (main (world_missing ''SHEET_NAME'') (init []))) =
     [EngineConnect, Execute ''USE WAREHOUSE WH;'', ReadSql ''select id, amount from t'',
      ConnectionClose, Authorize, OpenByUrl ''https://sheets/1''] \<and>
   (example_config(''SPREADSHEET_URL'' := None)) ''SPREADSHEET_URL'' = None \<and>
   fst (main (world_missing ''SPREADSHEET_URL'') (init [])) = Inl (KeyError ''SPREADSHEET_URL'') \<and>
   calls (snd (main (world_missing ''SPREADSHEET_URL'') (init []))) =
     [EngineConnect, Execute ''USE WAREHOUSE WH;'', ReadSql ''select id, amount from t'',
      ConnectionClose, Authorize] \<and>
   (example_config(''GOOGLE_KEYFILE_PATH'' := None)) ''GOOGLE_KEYFILE_PATH'' = None \<and>
   fst (main (world_missing ''GOOGLE_KEYFILE_PATH'') (init [])) =
     Inl (KeyError ''GOOGLE_KEYFILE_PATH'') \<and>
   calls (snd (main (world_missing ''GOOGLE_KEYFILE_PATH'') (init []))) =
     [EngineConnect, Execute ''USE WAREHOUSE WH;'', ReadSql ''select id, amount from t'',
      ConnectionClose]"
  by (simp add: main_simps close_log_def push_to_sheets_apply GoogleSheetsClient_init_apply
      get_spreadsheet_by_url_apply world_missing_def example_world_def example_config_def)

text \<open>
  The stages with a handler log the error and re-raise it; \<^verbatim>\<open>load_query\<close> has no
  handler, and its error leaves the function as it is.
\<close>

lemma sibling_stages_log_their_errors:
  "json_file w p = Inl e \<Longrightarrow>
     load_config w p s =
       (Inl e, s\<lparr>log := log s @ [(ERROR, ''Error loading config.json: '' @ str_exn e)]\<rparr>)"
  "binary_file w p = Inl e \<Longrightarrow>
     load_private_key_base64 w p s =
       (Inl e, s\<lparr>log := log s @
          [(ERROR, ''Failed to load or convert private key: '' @ str_exn e)]\<rparr>)"
  "read_sql_result w = Inl e \<Longrightarrow>
     fetch_data w db q s =
       (Inl e, s\<lparr>calls := calls s @ [ReadSql q],
                  log := log s @ [(INFO, ''Fetching data from Snowflake...''),
                                  (ERROR, ''Error fetching data: '' @ str_exn e)]\<rparr>)"
  "text_file w p = Inl e \<Longrightarrow> load_query w p s = (Inl e, s)"
  by (simp_all add: load_config_apply load_private_key_base64_apply fetch_data_apply
      load_query_apply)

text \<open>
  Claim C7 at a failing input: the configuration loads and \<^verbatim>\<open>query.sql\<close> cannot be
  read. The run ends with the \<^verbatim>\<open>OSError\<close>, as the claim says, but the log holds only
  the line of the configuration: the error is not logged.
\<close>

theorem query_load_error_is_not_logged:
  "json_file world_query_missing ''config.json'' = Inr example_config \<and>
   text_file world_query_missing ''query.sql'' =
     Inl (OSError ''No such file or directory: query.sql'') \<and>
   main world_query_missing (init []) =
     (Inl (OSError ''No such file or directory: query.sql''),
      \<lparr>log = [(INFO, ''Loaded config.json successfully.'')], calls = [], sheets = []\<rparr>)"
  by (simp add: main_simps world_query_missing_def example_world_def)

section \<open>Loading the private key\<close>























end
